theory Spec2Isabelle
  imports Complex_Main
begin

section \<open>Data model of the battle engine (src/main.js)\<close>

text \<open>
  The engine keeps its state in module-level variables: the objects \<open>game\<close> and
  \<open>player\<close>, the set \<open>keys\<close>, the arrays \<open>bones\<close> and \<open>blasters\<close>, the
  variables \<open>stallTimer\<close> and \<open>napMode\<close>, the object \<open>intro\<close>, the text of the
  dialogue element and of the HP/KR elements, and the callbacks handed to
  \<open>setTimeout\<close> that have not run yet. The model gathers them in one record and
  every function of the source takes the record and returns it updated.

  JavaScript numbers are modelled as mathematical reals (counters that only take
  whole values as \<open>nat\<close> or \<open>int\<close>); rounding of IEEE doubles, \<open>NaN\<close> and the
  infinities are outside the model. Rendering (\<open>draw\<close>) and the audio toggle are
  left out: they write nothing the simulation reads.
\<close>

datatype soul_color = Red | Blue

datatype bone_color = White | BlueBone

record game_rec =
  width :: real
  height :: real
  frame :: nat
  running :: bool
  phaseIndex :: nat
  subphaseTime :: real
  gravity :: real
  soulColor :: soul_color
  inMenu :: bool
  specialStall :: bool
  finished :: bool
  introActive :: bool

record player_rec =
  p_x :: real
  p_y :: real
  p_vx :: real
  p_vy :: real
  p_width :: real
  p_height :: real
  speed :: real
  jump :: real
  onGround :: bool
  moveThisFrame :: bool
  hp :: real
  hpMax :: real
  kr :: real

record bone =
  b_x :: real
  b_y :: real
  b_w :: real
  b_h :: real
  b_color :: bone_color
  b_vx :: real
  b_vy :: real

record blaster =
  g_x :: real
  g_y :: real
  g_angle :: real
  g_charge :: int
  g_fire :: int
  g_life :: int

text \<open>
  What a pending \<open>setTimeout\<close> callback does when it runs. \<open>Seq\<close> is a callback
  body with two statements, \<open>Defer\<close> a callback that itself calls \<open>setTimeout\<close>
  (as in \<open>patternGauntlet\<close>).
\<close>

datatype effect =
    SpawnBone real real real real bone_color real real
  | SpawnBlaster real real real
  | SetVelocity real real
  | FlipGravity
  | ResetForMenu
  | AdvanceIntro
  | Seq effect effect
  | Defer real effect

text \<open>
  The HP and KR elements show \<open>max(0, floor(hp))\<close>, \<open>hpMax\<close> and \<open>floor(kr)\<close>; the
  model keeps the three numbers instead of the formatted text.
\<close>

record hud_rec =
  hud_hp :: int
  hud_hpMax :: real
  hud_kr :: int

record state =
  game :: game_rec
  player :: player_rec
  keys :: "string set"
  bones :: "bone list"
  blasters :: "blaster list"
  stallTimer :: real
  napMode :: bool
  introIdx :: nat
  dialogue :: string
  hud :: hud_rec
  timers :: "(real \<times> effect) list"
  last :: real

section \<open>Helpers\<close>

definition setDialogue :: "string \<Rightarrow> state \<Rightarrow> state" where
  "setDialogue t s = s\<lparr>dialogue := t\<rparr>"

definition updateUI :: "state \<Rightarrow> state" where
  "updateUI s = s\<lparr>hud := \<lparr>hud_hp = max 0 \<lfloor>hp (player s)\<rfloor>,
                            hud_hpMax = hpMax (player s),
                            hud_kr = \<lfloor>kr (player s)\<rfloor>\<rparr>\<rparr>"

definition rectsOverlap ::
  "real \<Rightarrow> real \<Rightarrow> real \<Rightarrow> real \<Rightarrow> real \<Rightarrow> real \<Rightarrow> real \<Rightarrow> real \<Rightarrow> bool" where
  "rectsOverlap ax ay aw ah bx by bw bh =
     (ax < bx + bw \<and> ax + aw > bx \<and> ay < by + bh \<and> ay + ah > by)"

definition spawnBone ::
  "real \<Rightarrow> real \<Rightarrow> real \<Rightarrow> real \<Rightarrow> bone_color \<Rightarrow> real \<Rightarrow> real \<Rightarrow> state \<Rightarrow> state" where
  "spawnBone x y w h c vx vy s =
     s\<lparr>bones := bones s @ [\<lparr>b_x = x, b_y = y, b_w = w, b_h = h, b_color = c, b_vx = vx, b_vy = vy\<rparr>]\<rparr>"

definition spawnBlaster :: "real \<Rightarrow> real \<Rightarrow> real \<Rightarrow> state \<Rightarrow> state" where
  "spawnBlaster x y a s =
     s\<lparr>blasters := blasters s @
          [\<lparr>g_x = x, g_y = y, g_angle = a, g_charge = 30, g_fire = 20, g_life = 70\<rparr>]\<rparr>"

definition resetForMenu :: "state \<Rightarrow> state" where
  "resetForMenu s = s\<lparr>game := (game s)\<lparr>inMenu := True\<rparr>\<rparr>"

definition leaveMenu :: "state \<Rightarrow> state" where
  "leaveMenu s = s\<lparr>game := (game s)\<lparr>inMenu := False\<rparr>\<rparr>"

text \<open>\<open>setTimeout(f, ms)\<close>: the callback joins the pending ones.\<close>

definition setTimeout :: "effect \<Rightarrow> real \<Rightarrow> state \<Rightarrow> state" where
  "setTimeout e ms s = s\<lparr>timers := timers s @ [(ms, e)]\<rparr>"

section \<open>Damage and corruption\<close>

definition applyKR :: "real \<Rightarrow> state \<Rightarrow> state" where
  "applyKR delta s =
     (if kr (player s) \<le> 0 then s
      else let drain = min (kr (player s)) (0.08 * delta);
               p1 = (player s)\<lparr>hp := hp (player s) - drain\<rparr>;
               p2 = p1\<lparr>kr := max 0 (kr p1 - 0.02 * delta)\<rparr>
           in s\<lparr>player := p2\<rparr>)"

definition hurt :: "real \<Rightarrow> real \<Rightarrow> state \<Rightarrow> state" where
  "hurt amount addKR s =
     (let p1 = (player s)\<lparr>hp := hp (player s) - amount\<rparr>;
          p2 = p1\<lparr>kr := min 60 (kr p1 + addKR)\<rparr>;
          s1 = s\<lparr>player := p2\<rparr>
      in if hp p2 \<le> 0
         then setDialogue ''you died. refresh to retry.''
                (s1\<lparr>game := (game s1)\<lparr>running := False\<rparr>\<rparr>)
         else s1)"

section \<open>The tick\<close>

text \<open>
  \<open>update\<close> is one long function in the source; the model names its consecutive
  blocks (each block's comment in the source is quoted) and composes them in the
  source's order.
\<close>

text \<open>"Menu timing"\<close>

definition menuTiming :: "state \<Rightarrow> state" where
  "menuTiming s =
     (if \<not> inMenu (game s) \<and> subphaseTime (game s) > 1800 \<and> \<not> specialStall (game s)
      then resetForMenu s else s)"

definition key_left :: "state \<Rightarrow> bool" where
  "key_left s = (''arrowleft'' \<in> keys s \<or> ''a'' \<in> keys s)"

definition key_right :: "state \<Rightarrow> bool" where
  "key_right s = (''arrowright'' \<in> keys s \<or> ''d'' \<in> keys s)"

definition key_up :: "state \<Rightarrow> bool" where
  "key_up s = (''arrowup'' \<in> keys s \<or> ''w'' \<in> keys s \<or> '' '' \<in> keys s)"

definition key_down :: "state \<Rightarrow> bool" where
  "key_down s = (''arrowdown'' \<in> keys s \<or> ''s'' \<in> keys s)"

text \<open>"Player input and physics", red soul: free movement.\<close>

definition moveRed :: "state \<Rightarrow> player_rec \<Rightarrow> player_rec" where
  "moveRed s p0 =
     (let p1 = (if key_left s then p0\<lparr>p_x := p_x p0 - speed p0, moveThisFrame := True\<rparr> else p0);
          p2 = (if key_right s then p1\<lparr>p_x := p_x p1 + speed p1, moveThisFrame := True\<rparr> else p1);
          p3 = (if key_up s then p2\<lparr>p_y := p_y p2 - speed p2, moveThisFrame := True\<rparr> else p2)
      in if key_down s then p3\<lparr>p_y := p_y p3 + speed p3, moveThisFrame := True\<rparr> else p3)"

text \<open>"blue: platforming with gravity" and "ground / ceiling".\<close>

definition moveBlue :: "state \<Rightarrow> player_rec \<Rightarrow> player_rec" where
  "moveBlue s p0 =
     (let grav = gravity (game s);
          p1 = (if key_left s then p0\<lparr>p_vx := - speed p0, moveThisFrame := True\<rparr>
                else if key_right s then p0\<lparr>p_vx := speed p0, moveThisFrame := True\<rparr>
                else p0\<lparr>p_vx := 0\<rparr>);
          p2 = (if key_up s \<and> onGround p1
                then p1\<lparr>p_vy := - jump p1 * sgn grav, onGround := False, moveThisFrame := True\<rparr>
                else p1);
          p3 = p2\<lparr>p_vy := p_vy p2 + grav * 0.4\<rparr>;
          p4 = p3\<lparr>p_x := p_x p3 + p_vx p3\<rparr>;
          p5 = p4\<lparr>p_y := p_y p4 + p_vy p4\<rparr>;
          floorY = (if grav > 0 then 460 else 20)
      in if (grav > 0 \<and> p_y p5 + p_height p5 \<ge> floorY) \<or> (grav < 0 \<and> p_y p5 \<le> floorY)
         then p5\<lparr>p_y := (if grav > 0 then floorY - p_height p5 else floorY),
                 p_vy := 0, onGround := True\<rparr>
         else p5\<lparr>onGround := False\<rparr>)"

definition movePlayer :: "state \<Rightarrow> state" where
  "movePlayer s =
     (let p0 = (player s)\<lparr>moveThisFrame := False\<rparr>
      in s\<lparr>player := (if soulColor (game s) = Red then moveRed s p0 else moveBlue s p0)\<rparr>)"

text \<open>"clamp to stage"\<close>

definition clampToStage :: "state \<Rightarrow> state" where
  "clampToStage s =
     (let p = player s;
          p1 = p\<lparr>p_x := max 20 (min (width (game s) - 20 - p_width p) (p_x p))\<rparr>;
          p2 = p1\<lparr>p_y := max 20 (min (height (game s) - 20 - p_height p1) (p_y p1))\<rparr>
      in s\<lparr>player := p2\<rparr>)"

text \<open>"Update bones" and "Cull off-screen bones"\<close>

definition moveBone :: "bone \<Rightarrow> bone" where
  "moveBone b = b\<lparr>b_x := b_x b + b_vx b, b_y := b_y b + b_vy b\<rparr>"

definition offScreen :: "game_rec \<Rightarrow> bone \<Rightarrow> bool" where
  "offScreen g b =
     (b_x b + b_w b < -200 \<or> b_x b > width g + 200 \<or> b_y b > height g + 200 \<or> b_y b + b_h b < -200)"

definition updateBones :: "state \<Rightarrow> state" where
  "updateBones s = s\<lparr>bones := filter (\<lambda>b. \<not> offScreen (game s) b) (map moveBone (bones s))\<rparr>"

text \<open>"Update blasters": one tick of life less, and the spent ones removed.\<close>

definition tickBlaster :: "blaster \<Rightarrow> blaster" where
  "tickBlaster g = g\<lparr>g_life := g_life g - 1\<rparr>"

definition updateBlasters :: "state \<Rightarrow> state" where
  "updateBlasters s = s\<lparr>blasters := filter (\<lambda>g. \<not> g_life g \<le> 0) (map tickBlaster (blasters s))\<rparr>"

text \<open>"Collisions: bones". The loop runs over the whole array, also after a hit
  that ended the game.\<close>

definition touches :: "state \<Rightarrow> bone \<Rightarrow> bool" where
  "touches s b =
     rectsOverlap (p_x (player s)) (p_y (player s)) (p_width (player s)) (p_height (player s))
                  (b_x b) (b_y b) (b_w b) (b_h b)"

definition hitByBone :: "bone \<Rightarrow> state \<Rightarrow> state" where
  "hitByBone b s =
     (if touches s b then
        (if b_color b = White then hurt 1.2 5 s
         else if b_color b = BlueBone then (if moveThisFrame (player s) then hurt 1.2 5 s else s)
         else s)
      else s)"

fun collideBones :: "bone list \<Rightarrow> state \<Rightarrow> state" where
  "collideBones [] s = s"
| "collideBones (b # bs) s = collideBones bs (hitByBone b s)"

text \<open>"Collisions: blaster beams"\<close>

definition beamLength :: real where
  "beamLength = 800"

definition beamWidth :: real where
  "beamWidth = 22"

definition beamActive :: "blaster \<Rightarrow> bool" where
  "beamActive g = (g_life g < 40)"

definition beamProj :: "state \<Rightarrow> blaster \<Rightarrow> real" where
  "beamProj s g =
     (let px = p_x (player s) + p_width (player s) / 2;
          py = p_y (player s) + p_height (player s) / 2;
          dx = cos (g_angle g); dy = sin (g_angle g);
          ox = px - g_x g; oy = py - g_y g
      in ox * dx + oy * dy)"

definition beamPerp :: "state \<Rightarrow> blaster \<Rightarrow> real" where
  "beamPerp s g =
     (let px = p_x (player s) + p_width (player s) / 2;
          py = p_y (player s) + p_height (player s) / 2;
          dx = cos (g_angle g); dy = sin (g_angle g);
          ox = px - g_x g; oy = py - g_y g
      in \<bar>- oy * dx + ox * dy\<bar>)"

definition hitByBeam :: "blaster \<Rightarrow> state \<Rightarrow> state" where
  "hitByBeam g s =
     (if \<not> beamActive g then s
      else if beamProj s g > 0 \<and> beamProj s g < beamLength \<and> beamPerp s g < beamWidth
           then hurt 0.9 6 s else s)"

fun collideBlasters :: "blaster list \<Rightarrow> state \<Rightarrow> state" where
  "collideBlasters [] s = s"
| "collideBlasters (g # gs) s = collideBlasters gs (hitByBeam g s)"

text \<open>"Special stall idle detection"\<close>

definition moving :: "state \<Rightarrow> bool" where
  "moving s =
     (''arrowleft'' \<in> keys s \<or> ''arrowright'' \<in> keys s \<or> ''arrowup'' \<in> keys s \<or>
      ''arrowdown'' \<in> keys s \<or> ''a'' \<in> keys s \<or> ''d'' \<in> keys s \<or> ''w'' \<in> keys s \<or>
      ''s'' \<in> keys s)"

definition tryAllowStallEscape :: "real \<Rightarrow> state \<Rightarrow> state" where
  "tryAllowStallEscape delta s =
     (if \<not> specialStall (game s) then s
      else let s1 = (if \<not> moving s then s\<lparr>stallTimer := stallTimer s + delta\<rparr>
                     else s\<lparr>stallTimer := 0\<rparr>);
               s2 = (if \<not> napMode s1 \<and> stallTimer s1 > 3000
                     then setDialogue ''... zzz'' (s1\<lparr>napMode := True\<rparr>) else s1)
           in if napMode s2 \<and> stallTimer s2 > 6000
              then setDialogue ''you feel the guard drop.'' (spawnBone 220 220 200 10 BlueBone 0 0 s2)
              else s2)"

text \<open>"If special stall and nap progressed long enough, allow finishing strike via FIGHT"\<close>

definition offerFinisher :: "state \<Rightarrow> state" where
  "offerFinisher s =
     (if specialStall (game s) \<and> napMode s \<and> stallTimer s > 8000 \<and> \<not> inMenu (game s)
         \<and> \<not> finished (game s)
      then setDialogue ''... now's your chance.'' (resetForMenu s) else s)"

definition update :: "real \<Rightarrow> state \<Rightarrow> state" where
  "update deltaMs s =
     (if \<not> running (game s) then s
      else let s1 = s\<lparr>game := (game s)\<lparr>frame := frame (game s) + 1,
                                        subphaseTime := subphaseTime (game s) + deltaMs\<rparr>\<rparr>
           in if introActive (game s1) then updateUI s1
              else let s2 = menuTiming s1;
                       s3 = movePlayer s2;
                       s4 = clampToStage s3;
                       s5 = updateBones s4;
                       s6 = updateBlasters s5;
                       s7 = collideBones (bones s6) s6;
                       s8 = collideBlasters (blasters s7) s7;
                       s9 = applyKR deltaMs s8;
                       s10 = tryAllowStallEscape deltaMs s9;
                       s11 = offerFinisher s10
                   in updateUI s11)"

section \<open>Intro dialogue\<close>

definition introLines :: "string list" where
  "introLines =
     [''hey.'',
      ''you look tired. me too.'',
      ''still moving forward, huh.'',
      ''welp. guess we do this the hard way.'',
      ''just a heads-up... blue means don't move.'',
      ''try to keep up.'',
      ''ready?'']"

definition perLineMs :: real where
  "perLineMs = 1400"

text \<open>
  \<open>clearTimeout(intro.timer)\<close>: \<open>intro.timer\<close> is the handle of the last
  \<open>setTimeout(advanceIntro, ...)\<close>, and every such call is preceded by this one, so
  at most one of these callbacks is pending and clearing it clears them all.
\<close>

definition clearIntroTimer :: "state \<Rightarrow> state" where
  "clearIntroTimer s = s\<lparr>timers := filter (\<lambda>t. snd t \<noteq> AdvanceIntro) (timers s)\<rparr>"

text \<open>\<open>for (let i = 0; i < n; i++) body(i)\<close>\<close>

definition forUpto :: "nat \<Rightarrow> (nat \<Rightarrow> state \<Rightarrow> state) \<Rightarrow> state \<Rightarrow> state" where
  "forUpto n body s = fold body [0..<n] s"

definition startColdOpen :: "state \<Rightarrow> state" where
  "startColdOpen s =
     (let s1 = forUpto 8 (\<lambda>i. spawnBone (40 + real i * 70) 420 50 10 White 0 (-2.5)) s;
          s2 = s1\<lparr>game := (game s1)\<lparr>phaseIndex := 0, subphaseTime := 0, inMenu := False\<rparr>\<rparr>
      in setTimeout ResetForMenu 1400 s2)"

definition advanceIntro :: "state \<Rightarrow> state" where
  "advanceIntro s =
     (if \<not> introActive (game s) then s
      else let s1 = clearIntroTimer s;
               s2 = s1\<lparr>introIdx := introIdx s1 + 1\<rparr>
           in if introIdx s2 < length introLines
              then setTimeout AdvanceIntro perLineMs (setDialogue (introLines ! introIdx s2) s2)
              else startColdOpen
                     (setDialogue ''...'' (s2\<lparr>game := (game s2)\<lparr>introActive := False\<rparr>\<rparr>)))"

definition startIntro :: "state \<Rightarrow> state" where
  "startIntro s =
     (let s1 = s\<lparr>game := (game s)\<lparr>introActive := True\<rparr>, introIdx := 0\<rparr>
      in setTimeout AdvanceIntro perLineMs (setDialogue (introLines ! 0) s1))"

definition startBattle :: "state \<Rightarrow> state" where
  "startBattle s = startIntro s"

section \<open>Patterns\<close>

definition patternSweepAndBlaster :: "state \<Rightarrow> state" where
  "patternSweepAndBlaster s =
     (let s1 = setDialogue ''keep your feet still when they're blue.'' s;
          s2 = fold (\<lambda>y st. spawnBone 640 (y + 15) 200 8 White (-4) 0
                              (spawnBone (-100) y 200 8 (if y = 300 then BlueBone else White) 4 0 st))
                    [360, 330, 300, 270, 240] s1
      in setTimeout (SpawnBlaster 560 80 (pi * 0.75)) 600 s2)"

definition patternStairsAndSwipe :: "state \<Rightarrow> state" where
  "patternStairsAndSwipe s =
     (let s1 = setDialogue ''jump. then wait. then jump.'' s;
          s2 = forUpto 6 (\<lambda>i. spawnBone (120 + real i * 60) (420 - real i * 40) 60 10 White 0 0) s1;
          s3 = forUpto 6 (\<lambda>i. setTimeout (SpawnBone (-120) 430 240 8 White 9 0) (200 + 120 * real i)) s2;
          s4 = setTimeout (SpawnBlaster 80 80 (pi / 4)) 700 s3
      in setTimeout (SpawnBlaster 560 140 (pi * 0.7)) 900 s4)"

definition patternBlueWhiteColumns :: "state \<Rightarrow> state" where
  "patternBlueWhiteColumns s =
     (let s1 = setDialogue ''move a little. then don't.'' s;
          s2 = forUpto 10 (\<lambda>i. spawnBone (120 + real i * 36) 210 20 180
                                  (if i mod 2 = 0 then White else BlueBone) 0 0) s1;
          s3 = setTimeout (SpawnBlaster 40 240 0) 500 s2;
          s4 = setTimeout (SpawnBlaster 600 240 pi) 680 s3
      in setTimeout (SpawnBlaster 320 (-20) (pi / 2)) 860 s4)"

definition patternPendulum :: "state \<Rightarrow> state" where
  "patternPendulum s =
     (let s1 = setDialogue ''watch the swing.'' s
      in forUpto 5 (\<lambda>i. spawnBone (320 - 6) (240 + sin (real i) * 120) 12 12 White 0 0) s1)"

definition patternTelekinesisDrops :: "state \<Rightarrow> state" where
  "patternTelekinesisDrops s =
     (let s1 = setDialogue ''buffer your landings.'' s;
          s2 = s1\<lparr>player := (player s1)\<lparr>p_vx := 6, p_vy := -8\<rparr>\<rparr>;
          s3 = setTimeout (SetVelocity (-8) (-4)) 300 s2;
          s4 = setTimeout (SetVelocity 0 12) 650 s3;
          s5 = forUpto 5 (\<lambda>i. spawnBone (200 + real i * 40) 440 24 8 White 0 0) s4
      in setTimeout (Seq (SpawnBlaster 220 420 (- pi / 2)) (SpawnBlaster 420 420 (- pi / 2))) 700 s5)"

definition patternMazeRun :: "state \<Rightarrow> state" where
  "patternMazeRun s =
     (let s1 = setDialogue ''small hops. no panic.'' s;
          s2 = forUpto 8 (\<lambda>i st. spawnBone (80 + real i * 64) 220 40 8 BlueBone 0 0
                                   (spawnBone (80 + real i * 64) 440 40 8 White 0 0 st)) s1
      in setTimeout (SpawnBlaster (-20) 280 0) 500 s2)"

definition patternSawtoothFlip :: "state \<Rightarrow> state" where
  "patternSawtoothFlip s =
     (let s1 = setDialogue ''up is down.'' s;
          s2 = forUpto 6 (\<lambda>i. spawnBone (60 + real i * 90) (400 - real (i mod 2) * 120) 80 10
                                 (if i mod 2 \<noteq> 0 then BlueBone else White) 0 0) s1;
          s3 = setTimeout FlipGravity 600 s2;
          s4 = setTimeout FlipGravity 1200 s3
      in setTimeout (SpawnBlaster 320 480 (- pi / 2)) 900 s4)"

definition patternGauntlet :: "state \<Rightarrow> state" where
  "patternGauntlet s =
     (let s1 = setDialogue ''route early.'' s;
          s2 = forUpto 10 (\<lambda>i st.
                 setTimeout (SpawnBone 640 (260 + (if i mod 2 \<noteq> 0 then -60 else 60)) 200 8 White (-6) 0)
                            (real i * 120 + 60)
                   (setTimeout (SpawnBone (-120) (260 + (if i mod 2 \<noteq> 0 then 30 else -30)) 200 8 White 6 0)
                               (real i * 120) st)) s1
      in setTimeout
           (Seq (SpawnBlaster 320 0 (pi / 2))
             (Seq (Defer 200 (SpawnBlaster 320 480 (- pi / 2)))
               (Seq (Defer 400 (SpawnBlaster 320 0 (pi / 2)))
                    (Defer 600 (Seq (SpawnBlaster 160 0 (pi / 2)) (SpawnBlaster 480 480 (- pi / 2)))))))
           300 s2)"

definition specialAttackStallSetup :: "state \<Rightarrow> state" where
  "specialAttackStallSetup s =
     (let s1 = setDialogue ''my special attack.'' s;
          s2 = spawnBone 220 220 200 10 White 0 0 s1;
          s3 = spawnBone 220 350 200 10 White 0 0 s2;
          s4 = spawnBone 220 220 10 140 White 0 0 s3
      in spawnBone 410 220 10 140 White 0 0 s4)"

definition nextAttack :: "state \<Rightarrow> state" where
  "nextAttack s =
     (let s1 = s\<lparr>bones := [], blasters := []\<rparr>;
          s2 = s1\<lparr>player := (player s1)\<lparr>p_vx := 0, p_vy := 0, moveThisFrame := False\<rparr>\<rparr>;
          s3 = s2\<lparr>game := (game s2)\<lparr>subphaseTime := 0\<rparr>\<rparr>;
          p = phaseIndex (game s3);
          s4 = s3\<lparr>game := (game s3)\<lparr>phaseIndex := p + 1\<rparr>\<rparr>
      in if specialStall (game s4) then specialAttackStallSetup s4
         else if p = 0 then patternSweepAndBlaster s4
         else if p = 1 then patternStairsAndSwipe s4
         else if p = 2 then patternBlueWhiteColumns s4
         else if p = 3 then patternPendulum s4
         else if p = 4 then patternTelekinesisDrops s4
         else if p = 5 then patternMazeRun s4
         else if p = 6 then patternSawtoothFlip s4
         else if p = 7 then patternGauntlet s4
         else specialAttackStallSetup (s4\<lparr>game := (game s4)\<lparr>specialStall := True\<rparr>\<rparr>))"

section \<open>Menu actions\<close>

text \<open>The action is the string of the clicked button; a string that is none of the
  four cases of the \<open>switch\<close> falls through it.\<close>

definition finisherReady :: "state \<Rightarrow> bool" where
  "finisherReady s = (specialStall (game s) \<and> napMode s \<and> stallTimer s > 8000)"

definition finishingStrike :: "state \<Rightarrow> state" where
  "finishingStrike s =
     (let s1 = setDialogue ''you swing while he sleeps. it's over.'' (leaveMenu s)
      in updateUI (s1\<lparr>game := (game s1)\<lparr>finished := True, running := False\<rparr>\<rparr>))"

definition onMenuAction :: "string \<Rightarrow> state \<Rightarrow> state" where
  "onMenuAction action s =
     (if \<not> inMenu (game s) then s
      else if finisherReady s \<and> action = ''FIGHT'' \<and> \<not> finished (game s) then finishingStrike s
      else if action = ''FIGHT'' then nextAttack (leaveMenu s)
      else if action = ''ACT'' then nextAttack (leaveMenu (setDialogue ''he doesn't seem interested.'' s))
      else if action = ''ITEM'' then
        (let heal = 18;
             s1 = s\<lparr>player := (player s)\<lparr>hp := min (hpMax (player s)) (hp (player s) + heal)\<rparr>\<rparr>
         in nextAttack (leaveMenu (setDialogue ''you use a healing item.'' s1)))
      else if action = ''MERCY'' then nextAttack (leaveMenu (setDialogue ''not an option.'' s))
      else s)"

section \<open>Deferred callbacks, keys and the frame loop\<close>

fun runEffect :: "effect \<Rightarrow> state \<Rightarrow> state" where
  "runEffect (SpawnBone x y w h c vx vy) s = spawnBone x y w h c vx vy s"
| "runEffect (SpawnBlaster x y a) s = spawnBlaster x y a s"
| "runEffect (SetVelocity vx vy) s = s\<lparr>player := (player s)\<lparr>p_vx := vx, p_vy := vy\<rparr>\<rparr>"
| "runEffect FlipGravity s = s\<lparr>game := (game s)\<lparr>gravity := - gravity (game s)\<rparr>\<rparr>"
| "runEffect ResetForMenu s = resetForMenu s"
| "runEffect AdvanceIntro s = advanceIntro s"
| "runEffect (Seq a b) s = runEffect b (runEffect a s)"
| "runEffect (Defer ms e) s = setTimeout e ms s"

text \<open>The \<open>i\<close>-th pending callback runs and leaves the pending ones. The model does
  not keep a wall clock: which callback is due is left to the caller.\<close>

definition fireTimer :: "nat \<Rightarrow> state \<Rightarrow> state" where
  "fireTimer i s =
     (if i < length (timers s)
      then runEffect (snd (timers s ! i)) (s\<lparr>timers := take i (timers s) @ drop (Suc i) (timers s)\<rparr>)
      else s)"

text \<open>\<open>String.prototype.toLowerCase\<close>, on ASCII.\<close>

fun lower_char :: "char \<Rightarrow> char" where
  "lower_char (Char b0 b1 b2 b3 b4 b5 b6 b7) =
     (let n = (of_char (Char b0 b1 b2 b3 b4 b5 b6 b7) :: nat)
      in if 65 \<le> n \<and> n \<le> 90 then Char b0 b1 b2 b3 b4 True b6 b7
         else Char b0 b1 b2 b3 b4 b5 b6 b7)"

definition toLowerCase :: "string \<Rightarrow> string" where
  "toLowerCase k = map lower_char k"

text \<open>\<open>handleKeysDown(e)\<close> with \<open>e.repeat\<close> and \<open>e.key\<close>.\<close>

definition handleKeysDown :: "bool \<Rightarrow> string \<Rightarrow> state \<Rightarrow> state" where
  "handleKeysDown rep k s =
     (if rep then s
      else if introActive (game s) \<and> (k = ''z'' \<or> k = ''Z'' \<or> k = ''Enter'') then advanceIntro s
      else let s1 = s\<lparr>keys := insert (toLowerCase k) (keys s)\<rparr>
           in if k = ''c'' \<or> k = ''C''
              then s1\<lparr>game := (game s1)\<lparr>soulColor :=
                        (if soulColor (game s1) = Blue then Red else Blue)\<rparr>\<rparr>
              else s1)"

definition handleKeysUp :: "string \<Rightarrow> state \<Rightarrow> state" where
  "handleKeysUp k s = s\<lparr>keys := keys s - {toLowerCase k}\<rparr>"

definition loop :: "real \<Rightarrow> state \<Rightarrow> state" where
  "loop now s =
     (let delta = min 32 (now - last s)
      in update delta (s\<lparr>last := now\<rparr>))"

text \<open>The state the script builds before its first frame. The canvas size comes from
  the page and \<open>t0\<close> is the clock when the script is loaded.\<close>

definition initial :: "real \<Rightarrow> real \<Rightarrow> real \<Rightarrow> state" where
  "initial w h t0 =
     \<lparr>game = \<lparr>width = w, height = h, frame = 0, running = True, phaseIndex = 0,
              subphaseTime = 0, gravity = 0.7, soulColor = Blue, inMenu = False,
              specialStall = False, finished = False, introActive = False\<rparr>,
      player = \<lparr>p_x = 320, p_y = 360, p_vx = 0, p_vy = 0, p_width = 12, p_height = 12,
                speed = 3.0, jump = 9.0, onGround = False, moveThisFrame = False,
                hp = 92, hpMax = 92, kr = 0\<rparr>,
      keys = {}, bones = [], blasters = [], stallTimer = 0, napMode = False, introIdx = 0,
      dialogue = [], hud = \<lparr>hud_hp = 0, hud_hpMax = 0, hud_kr = 0\<rparr>, timers = [], last = t0\<rparr>"

definition boot :: "real \<Rightarrow> real \<Rightarrow> real \<Rightarrow> state" where
  "boot w h t0 = startBattle (updateUI (initial w h t0))"

text \<open>
  The states the engine can be in: after \<open>boot\<close>, any interleaving of frames, menu
  clicks, key events and deferred callbacks. A frame is requested only while the
  game is running, and its timestamp is taken not to run backwards.
\<close>

inductive reachable :: "state \<Rightarrow> bool" where
  r_boot: "reachable (boot w h t0)"
| r_frame: "reachable s \<Longrightarrow> running (game s) \<Longrightarrow> last s \<le> now \<Longrightarrow> reachable (loop now s)"
| r_menu: "reachable s \<Longrightarrow> reachable (onMenuAction a s)"
| r_keydown: "reachable s \<Longrightarrow> reachable (handleKeysDown rep k s)"
| r_keyup: "reachable s \<Longrightarrow> reachable (handleKeysUp k s)"
| r_timer: "reachable s \<Longrightarrow> reachable (fireTimer i s)"

section \<open>Notions used to state the properties\<close>

text \<open>A bone does damage in a tick when it overlaps the soul and is white, or blue
  while the soul moved in that tick.\<close>

definition damaging :: "state \<Rightarrow> bone \<Rightarrow> bool" where
  "damaging s b =
     (touches s b \<and> (b_color b = White \<or> (b_color b = BlueBone \<and> moveThisFrame (player s))))"

definition boneHits :: "state \<Rightarrow> bone list \<Rightarrow> nat" where
  "boneHits s bs = length (filter (damaging s) bs)"

text \<open>A blaster strikes when the beam test of the source succeeds for it.\<close>

definition beamStrikes :: "state \<Rightarrow> blaster \<Rightarrow> bool" where
  "beamStrikes s g =
     (g_life g < 40 \<and> 0 < beamProj s g \<and> beamProj s g < 800 \<and> beamPerp s g < 22)"

definition beamHits :: "state \<Rightarrow> blaster list \<Rightarrow> nat" where
  "beamHits s gs = length (filter (beamStrikes s) gs)"

text \<open>The bounds on the two meters.\<close>

definition meterInvariant :: "state \<Rightarrow> bool" where
  "meterInvariant s =
     (0 \<le> kr (player s) \<and> kr (player s) \<le> 60 \<and> hp (player s) \<le> hpMax (player s))"

definition meters :: "state \<Rightarrow> real \<times> real \<times> real" where
  "meters s = (hp (player s), kr (player s), hpMax (player s))"

text \<open>The first two statements of \<open>update\<close>, and its two collision loops together.\<close>

definition tick :: "real \<Rightarrow> state \<Rightarrow> state" where
  "tick d s = s\<lparr>game := (game s)\<lparr>frame := frame (game s) + 1,
                                  subphaseTime := subphaseTime (game s) + d\<rparr>\<rparr>"

definition collide :: "state \<Rightarrow> state" where
  "collide s = collideBlasters (blasters (collideBones (bones s) s)) (collideBones (bones s) s)"

text \<open>The blocks of \<open>update\<close> between the menu timing and the collisions: input
  and physics of the soul, clamping, advance and removal of bones and blasters.\<close>

definition advance :: "state \<Rightarrow> state" where
  "advance s = updateBlasters (updateBones (clampToStage (movePlayer s)))"

text \<open>\<open>s'\<close> differs from \<open>s\<close> at most in hp, corruption, the running flag and the
  dialogue: all that a hit or the corruption drain can change.\<close>

definition onlyMeters :: "state \<Rightarrow> state \<Rightarrow> bool" where
  "onlyMeters s s' =
     (\<exists>h k r t. s' = s\<lparr>player := (player s)\<lparr>hp := h, kr := k\<rparr>,
                         game := (game s)\<lparr>running := r\<rparr>, dialogue := t\<rparr>)"

text \<open>The four walls that \<open>specialAttackStallSetup\<close> spawns, and the blue bone of
  \<open>tryAllowStallEscape\<close>.\<close>

definition cageBones :: "bone list" where
  "cageBones =
     [\<lparr>b_x = 220, b_y = 220, b_w = 200, b_h = 10, b_color = White, b_vx = 0, b_vy = 0\<rparr>,
      \<lparr>b_x = 220, b_y = 350, b_w = 200, b_h = 10, b_color = White, b_vx = 0, b_vy = 0\<rparr>,
      \<lparr>b_x = 220, b_y = 220, b_w = 10, b_h = 140, b_color = White, b_vx = 0, b_vy = 0\<rparr>,
      \<lparr>b_x = 410, b_y = 220, b_w = 10, b_h = 140, b_color = White, b_vx = 0, b_vy = 0\<rparr>]"

definition blueTop :: bone where
  "blueTop = \<lparr>b_x = 220, b_y = 220, b_w = 200, b_h = 10, b_color = BlueBone, b_vx = 0, b_vy = 0\<rparr>"

subsection \<open>Example states\<close>

text \<open>On a 640 by 480 canvas: the state once the player has skipped the seven lines of
  the intro with the Enter key, so that the cold open has just spawned its bones.\<close>

definition afterIntro :: state where
  "afterIntro = (handleKeysDown False ''Enter'' ^^ 7) (boot 640 480 0)"

text \<open>The arena with one blaster at the left edge that fires to the right along the
  line of the soul, with \<open>n\<close> ticks of lifetime left.\<close>

definition beamScene :: "int \<Rightarrow> state" where
  "beamScene n =
     (initial 640 480 0)\<lparr>blasters :=
        [\<lparr>g_x = 0, g_y = 366, g_angle = 0, g_charge = 30, g_fire = 20, g_life = n\<rparr>]\<rparr>"

text \<open>The arena with one white bone that does not move, across the place of the soul.\<close>

definition boneScene :: state where
  "boneScene =
     (initial 640 480 0)\<lparr>bones :=
        [\<lparr>b_x = 300, b_y = 350, b_w = 200, b_h = 20, b_color = White, b_vx = 0, b_vy = 0\<rparr>]\<rparr>"

text \<open>The arena with no obstacle and a soul at hp 1 carrying 10 of corruption.\<close>

definition drainScene :: state where
  "drainScene = (initial 640 480 0)\<lparr>player := (player (initial 640 480 0))\<lparr>hp := 1, kr := 10\<rparr>\<rparr>"

text \<open>The stall: the cage is up, the boss has dozed off and the player has been idle
  for 6100 ms.\<close>

definition napScene :: state where
  "napScene =
     (initial 640 480 0)\<lparr>game := (game (initial 640 480 0))\<lparr>phaseIndex := 9, specialStall := True\<rparr>,
                          bones := cageBones, napMode := True, stallTimer := 6100\<rparr>"

text \<open>The same stall with a red soul at hp 1 that rests inside the bottom wall.\<close>

definition wallScene :: state where
  "wallScene =
     napScene\<lparr>game := (game napScene)\<lparr>soulColor := Red\<rparr>,
               player := (player napScene)\<lparr>p_y := 352, hp := 1\<rparr>\<rparr>"

text \<open>The stall with the finisher on offer: idle for 8016 ms, the menu open.\<close>

definition finisherScene :: state where
  "finisherScene =
     napScene\<lparr>game := (game napScene)\<lparr>inMenu := True\<rparr>, bones := cageBones @ [blueTop],
               stallTimer := 8016\<rparr>"

section \<open>Hits\<close>

lemma hurt_player:
  "player (hurt a k s) = (player s)\<lparr>hp := hp (player s) - a, kr := min 60 (kr (player s) + k)\<rparr>"
  by (simp add: hurt_def setDialogue_def Let_def)

lemma hp_funpow_hurt: "hp (player ((hurt a k ^^ n) s)) = hp (player s) - real n * a"
  by (induction n) (simp_all add: hurt_player algebra_simps)

lemma kr_funpow_hurt:
  "0 \<le> k \<Longrightarrow> kr (player ((hurt a k ^^ n) s)) =
     (if n = 0 then kr (player s) else min 60 (kr (player s) + real n * k))"
proof (induction n)
  case 0
  show ?case by simp
next
  case (Suc n)
  then show ?case
    by (cases n) (auto simp add: hurt_player algebra_simps min_def)
qed

subsection \<open>Bones\<close>

lemma touches_hurt [simp]: "touches (hurt a k s) b = touches s b"
  by (simp add: touches_def hurt_player)

lemma damaging_hurt [simp]: "damaging (hurt a k s) b = damaging s b"
  by (simp add: damaging_def hurt_player)

lemma hitByBone_damaging: "hitByBone b s = (if damaging s b then hurt 1.2 5 s else s)"
  by (cases "b_color b") (simp_all add: hitByBone_def damaging_def)

lemma collideBones_funpow: "collideBones bs s = (hurt 1.2 5 ^^ boneHits s bs) s"
proof (induction bs arbitrary: s)
  case Nil
  show ?case by (simp add: boneHits_def)
next
  case (Cons b bs)
  have same: "boneHits (hurt 1.2 5 s) bs = boneHits s bs"
    by (simp add: boneHits_def cong: filter_cong)
  show ?case
  proof (cases "damaging s b")
    case True
    then show ?thesis
      using Cons.IH [of "hurt 1.2 5 s"] same
      by (simp add: hitByBone_damaging boneHits_def funpow_swap1)
  next
    case False
    then show ?thesis
      using Cons.IH [of s] by (simp add: hitByBone_damaging boneHits_def)
  qed
qed

text \<open>
  C1. The bone-collision block of a tick applies the fixed hit (1.2 hp, 5 corruption
  capped at 60) once for each bone that overlaps the soul and is white, or is blue
  while \<open>moveThisFrame\<close> is set; a blue bone overlapping a soul that did not move is
  not counted and changes nothing. So hp falls by 1.2 per counted bone and corruption
  rises by 5 per counted bone up to 60.
\<close>

theorem bone_damage_resolution:
  "collideBones bs s = (hurt 1.2 5 ^^ boneHits s bs) s \<and>
   hp (player (collideBones bs s)) = hp (player s) - 1.2 * real (boneHits s bs) \<and>
   kr (player (collideBones bs s)) =
     (if boneHits s bs = 0 then kr (player s)
      else min 60 (kr (player s) + 5 * real (boneHits s bs)))"
  using kr_funpow_hurt [of 5 "boneHits s bs" "12 / 10" s]
  by (simp add: collideBones_funpow hp_funpow_hurt mult.commute)

text \<open>The scenario of the specification: the soul of the initial state (hp 92,
  corruption 0, not moving) under one white bone and one blue bone ends the block at
  hp 90.8 and corruption 5.\<close>

theorem bone_damage_resolution_witness:
  "hp (player (collideBones
        [\<lparr>b_x = 300, b_y = 350, b_w = 200, b_h = 20, b_color = White, b_vx = 0, b_vy = 0\<rparr>,
         \<lparr>b_x = 300, b_y = 350, b_w = 200, b_h = 20, b_color = BlueBone, b_vx = 0, b_vy = 0\<rparr>]
        (initial 640 480 0))) = 90.8 \<and>
   kr (player (collideBones
        [\<lparr>b_x = 300, b_y = 350, b_w = 200, b_h = 20, b_color = White, b_vx = 0, b_vy = 0\<rparr>,
         \<lparr>b_x = 300, b_y = 350, b_w = 200, b_h = 20, b_color = BlueBone, b_vx = 0, b_vy = 0\<rparr>]
        (initial 640 480 0))) = 5"
  using bone_damage_resolution
    [of "[\<lparr>b_x = 300, b_y = 350, b_w = 200, b_h = 20, b_color = White, b_vx = 0, b_vy = 0\<rparr>,
          \<lparr>b_x = 300, b_y = 350, b_w = 200, b_h = 20, b_color = BlueBone, b_vx = 0, b_vy = 0\<rparr>]"
        "initial 640 480 0"]
  by (simp add: boneHits_def damaging_def touches_def rectsOverlap_def initial_def hurt_player)


subsection \<open>Blaster beams\<close>

lemma beamProj_hurt [simp]: "beamProj (hurt a k s) g = beamProj s g"
  by (simp add: beamProj_def hurt_player)

lemma beamPerp_hurt [simp]: "beamPerp (hurt a k s) g = beamPerp s g"
  by (simp add: beamPerp_def hurt_player)

lemma beamStrikes_hurt [simp]: "beamStrikes (hurt a k s) g = beamStrikes s g"
  by (simp add: beamStrikes_def)

lemma hitByBeam_strikes: "hitByBeam g s = (if beamStrikes s g then hurt 0.9 6 s else s)"
  by (simp add: hitByBeam_def beamStrikes_def beamActive_def beamLength_def beamWidth_def)

lemma collideBlasters_funpow: "collideBlasters gs s = (hurt 0.9 6 ^^ beamHits s gs) s"
proof (induction gs arbitrary: s)
  case Nil
  show ?case by (simp add: beamHits_def)
next
  case (Cons g gs)
  have same: "beamHits (hurt 0.9 6 s) gs = beamHits s gs"
    by (simp add: beamHits_def cong: filter_cong)
  show ?case
  proof (cases "beamStrikes s g")
    case True
    then show ?thesis
      using Cons.IH [of "hurt 0.9 6 s"] same
      by (simp add: hitByBeam_strikes beamHits_def funpow_swap1)
  next
    case False
    then show ?thesis
      using Cons.IH [of s] by (simp add: hitByBeam_strikes beamHits_def)
  qed
qed


section \<open>Evaluating the example states\<close>

lemmas eval_boot = boot_def startBattle_def startIntro_def updateUI_def setTimeout_def
  setDialogue_def initial_def introLines_def perLineMs_def Let_def

lemmas eval_keys = handleKeysDown_def handleKeysUp_def toLowerCase_def advanceIntro_def
  clearIntroTimer_def setTimeout_def setDialogue_def introLines_def perLineMs_def Let_def
  startColdOpen_def forUpto_def spawnBone_def upt_rec

lemmas eval_move = menuTiming_def resetForMenu_def movePlayer_def moveBlue_def moveRed_def
  key_left_def key_right_def key_up_def key_down_def clampToStage_def Let_def

lemmas eval_entities = updateBones_def updateBlasters_def tickBlaster_def moveBone_def
  offScreen_def

lemmas eval_collide = hitByBone_def touches_def rectsOverlap_def hitByBeam_def beamActive_def
  beamProj_def beamPerp_def beamLength_def beamWidth_def hurt_def setDialogue_def Let_def

lemmas eval_rest = applyKR_def tryAllowStallEscape_def moving_def spawnBone_def
  setDialogue_def offerFinisher_def resetForMenu_def updateUI_def Let_def

lemma boot_state:
  "boot 640 480 0 =
     \<lparr>game = \<lparr>width = 640, height = 480, frame = 0, running = True, phaseIndex = 0,
              subphaseTime = 0, gravity = 7 / 10, soulColor = Blue, inMenu = False,
              specialStall = False, finished = False, introActive = True\<rparr>,
      player = \<lparr>p_x = 320, p_y = 360, p_vx = 0, p_vy = 0, p_width = 12, p_height = 12,
                speed = 3, jump = 9, onGround = False, moveThisFrame = False,
                hp = 92, hpMax = 92, kr = 0\<rparr>,
      keys = {}, bones = [], blasters = [], stallTimer = 0, napMode = False, introIdx = 0,
      dialogue = ''hey.'', hud = \<lparr>hud_hp = 92, hud_hpMax = 92, hud_kr = 0\<rparr>,
      timers = [(1400, AdvanceIntro)], last = 0\<rparr>"
  by (simp add: eval_boot)

lemma afterIntro_state:
  "afterIntro =
     \<lparr>game = \<lparr>width = 640, height = 480, frame = 0, running = True, phaseIndex = 0,
              subphaseTime = 0, gravity = 7 / 10, soulColor = Blue, inMenu = False,
              specialStall = False, finished = False, introActive = False\<rparr>,
      player = \<lparr>p_x = 320, p_y = 360, p_vx = 0, p_vy = 0, p_width = 12, p_height = 12,
                speed = 3, jump = 9, onGround = False, moveThisFrame = False,
                hp = 92, hpMax = 92, kr = 0\<rparr>,
      keys = {},
      bones =
        [\<lparr>b_x = 40, b_y = 420, b_w = 50, b_h = 10, b_color = White, b_vx = 0, b_vy = - (5 / 2)\<rparr>,
         \<lparr>b_x = 110, b_y = 420, b_w = 50, b_h = 10, b_color = White, b_vx = 0, b_vy = - (5 / 2)\<rparr>,
         \<lparr>b_x = 180, b_y = 420, b_w = 50, b_h = 10, b_color = White, b_vx = 0, b_vy = - (5 / 2)\<rparr>,
         \<lparr>b_x = 250, b_y = 420, b_w = 50, b_h = 10, b_color = White, b_vx = 0, b_vy = - (5 / 2)\<rparr>,
         \<lparr>b_x = 320, b_y = 420, b_w = 50, b_h = 10, b_color = White, b_vx = 0, b_vy = - (5 / 2)\<rparr>,
         \<lparr>b_x = 390, b_y = 420, b_w = 50, b_h = 10, b_color = White, b_vx = 0, b_vy = - (5 / 2)\<rparr>,
         \<lparr>b_x = 460, b_y = 420, b_w = 50, b_h = 10, b_color = White, b_vx = 0, b_vy = - (5 / 2)\<rparr>,
         \<lparr>b_x = 530, b_y = 420, b_w = 50, b_h = 10, b_color = White, b_vx = 0, b_vy = - (5 / 2)\<rparr>],
      blasters = [], stallTimer = 0, napMode = False, introIdx = 7,
      dialogue = ''...'', hud = \<lparr>hud_hp = 92, hud_hpMax = 92, hud_kr = 0\<rparr>,
      timers = [(1400, ResetForMenu)], last = 0\<rparr>"
  apply (simp add: afterIntro_def eval_nat_numeral boot_state)
  apply (simp add: eval_keys)
  done

lemma reachable_afterIntro: "reachable afterIntro"
  unfolding afterIntro_def
  by (simp add: eval_nat_numeral) (intro reachable.intros)

text \<open>One tick with no time elapsed, after the intro: gravity pulls the soul down and
  the bones of the cold open rise.\<close>

lemma afterIntro_tick0:
  "p_y (player (update 0 afterIntro)) = 360.28 \<and> p_vy (player (update 0 afterIntro)) = 0.28 \<and>
   map b_y (bones (update 0 afterIntro)) = replicate 8 417.5"
  apply (simp add: update_def Let_def afterIntro_state)
  apply (simp add: eval_move)
  apply (simp add: eval_entities)
  apply (simp add: eval_collide)
  apply (simp add: eval_rest eval_nat_numeral)
  done


section \<open>The tick, block by block\<close>

lemma update_not_running: "\<not> running (game s) \<Longrightarrow> update d s = s"
  by (simp add: update_def)

lemma update_intro:
  "running (game s) \<Longrightarrow> introActive (game s) \<Longrightarrow> update d s = updateUI (tick d s)"
  by (simp add: update_def tick_def Let_def)

lemma update_phases:
  "running (game s) \<Longrightarrow> \<not> introActive (game s) \<Longrightarrow>
   update d s =
     updateUI (offerFinisher (tryAllowStallEscape d (applyKR d (collide
       (updateBlasters (updateBones (clampToStage (movePlayer (menuTiming (tick d s))))))))))"
  by (simp add: update_def tick_def collide_def Let_def)


lemma onlyMeters_refl: "onlyMeters s s"
  unfolding onlyMeters_def
  by (rule exI [of _ "hp (player s)"], rule exI [of _ "kr (player s)"],
      rule exI [of _ "running (game s)"], rule exI [of _ "dialogue s"]) simp

lemma onlyMeters_trans: "onlyMeters s t \<Longrightarrow> onlyMeters t u \<Longrightarrow> onlyMeters s u"
  unfolding onlyMeters_def by (elim exE) (simp, blast)

lemma onlyMeters_hurt: "onlyMeters s (hurt a k s)"
  unfolding onlyMeters_def hurt_def setDialogue_def Let_def
  by (rule exI [of _ "hp (player s) - a"], rule exI [of _ "min 60 (kr (player s) + k)"],
      rule exI [of _ "\<not> hp (player s) - a \<le> 0 \<and> running (game s)"],
      rule exI [of _ "if hp (player s) - a \<le> 0 then ''you died. refresh to retry.'' else dialogue s"])
     simp

lemma onlyMeters_funpow: "onlyMeters s ((hurt a k ^^ n) s)"
proof (induction n)
  case 0
  show ?case by (simp add: onlyMeters_refl)
next
  case (Suc n)
  show ?case
    using onlyMeters_trans [OF Suc onlyMeters_hurt] by simp
qed

lemma onlyMeters_collide: "onlyMeters s (collide s)"
  unfolding collide_def collideBlasters_funpow collideBones_funpow
  by (rule onlyMeters_trans [OF onlyMeters_funpow onlyMeters_funpow])

lemma onlyMeters_applyKR: "onlyMeters s (applyKR d s)"
  unfolding onlyMeters_def applyKR_def Let_def
  by (rule exI [of _ "if kr (player s) \<le> 0 then hp (player s) else hp (player s) - min (kr (player s)) (0.08 * d)"],
      rule exI [of _ "if kr (player s) \<le> 0 then kr (player s) else max 0 (kr (player s) - 0.02 * d)"],
      rule exI [of _ "running (game s)"], rule exI [of _ "dialogue s"]) simp

lemma onlyMeters_fields:
  assumes "onlyMeters s s'"
  shows "frame (game s') = frame (game s)" and "subphaseTime (game s') = subphaseTime (game s)"
    and "moveThisFrame (player s') = moveThisFrame (player s)"
    and "hpMax (player s') = hpMax (player s)"
    and "keys s' = keys s" and "stallTimer s' = stallTimer s" and "napMode s' = napMode s"
    and "bones s' = bones s" and "blasters s' = blasters s"
    and "inMenu (game s') = inMenu (game s)" and "specialStall (game s') = specialStall (game s)"
    and "finished (game s') = finished (game s)"
  using assms unfolding onlyMeters_def by auto


subsection \<open>What each block leaves alone\<close>

lemma tick_fields:
  "player (tick d s) = player s" "keys (tick d s) = keys s"
  "frame (game (tick d s)) = Suc (frame (game s))"
  "subphaseTime (game (tick d s)) = subphaseTime (game s) + d"
  "soulColor (game (tick d s)) = soulColor (game s)"
  by (simp_all add: tick_def)

lemma menuTiming_fields:
  "player (menuTiming s) = player s" "keys (menuTiming s) = keys s"
  "frame (game (menuTiming s)) = frame (game s)"
  "subphaseTime (game (menuTiming s)) = subphaseTime (game s)"
  "soulColor (game (menuTiming s)) = soulColor (game s)"
  by (simp_all add: menuTiming_def resetForMenu_def)

lemma movePlayer_fields:
  "frame (game (movePlayer s)) = frame (game s)"
  "subphaseTime (game (movePlayer s)) = subphaseTime (game s)"
  "hp (player (movePlayer s)) = hp (player s)" "kr (player (movePlayer s)) = kr (player s)"
  "hpMax (player (movePlayer s)) = hpMax (player s)"
  by (simp_all add: movePlayer_def moveRed_def moveBlue_def Let_def)

lemma movePlayer_blue:
  "soulColor (game s) = Blue \<Longrightarrow>
   moveThisFrame (player (movePlayer s)) =
     (key_left s \<or> key_right s \<or> (key_up s \<and> onGround (player s)))"
  by (simp add: movePlayer_def moveBlue_def Let_def)

lemma clampToStage_fields:
  "frame (game (clampToStage s)) = frame (game s)"
  "subphaseTime (game (clampToStage s)) = subphaseTime (game s)"
  "hp (player (clampToStage s)) = hp (player s)" "kr (player (clampToStage s)) = kr (player s)"
  "hpMax (player (clampToStage s)) = hpMax (player s)"
  "moveThisFrame (player (clampToStage s)) = moveThisFrame (player s)"
  by (simp_all add: clampToStage_def Let_def)

lemma updateBones_fields:
  "game (updateBones s) = game s" "player (updateBones s) = player s"
  by (simp_all add: updateBones_def)

lemma updateBlasters_fields:
  "game (updateBlasters s) = game s" "player (updateBlasters s) = player s"
  by (simp_all add: updateBlasters_def)

lemma tryAllowStallEscape_fields:
  "game (tryAllowStallEscape d s) = game s" "player (tryAllowStallEscape d s) = player s"
  by (simp_all add: tryAllowStallEscape_def setDialogue_def spawnBone_def Let_def)

lemma offerFinisher_fields:
  "player (offerFinisher s) = player s"
  "frame (game (offerFinisher s)) = frame (game s)"
  "subphaseTime (game (offerFinisher s)) = subphaseTime (game s)"
  by (simp_all add: offerFinisher_def setDialogue_def resetForMenu_def)

lemma updateUI_fields:
  "game (updateUI s) = game s" "player (updateUI s) = player s"
  by (simp_all add: updateUI_def)

lemmas before_fields = tick_fields menuTiming_fields movePlayer_fields clampToStage_fields
  updateBones_fields updateBlasters_fields

lemmas after_fields = tryAllowStallEscape_fields offerFinisher_fields updateUI_fields

lemmas meters_fields =
  onlyMeters_fields [OF onlyMeters_collide] onlyMeters_fields [OF onlyMeters_applyKR]

subsection \<open>The meters through one tick\<close>

lemma meterInvariant_hurt:
  "meterInvariant s \<Longrightarrow> 0 \<le> a \<Longrightarrow> 0 \<le> k \<Longrightarrow> meterInvariant (hurt a k s)"
  by (simp add: meterInvariant_def hurt_player)

lemma meterInvariant_funpow:
  "meterInvariant s \<Longrightarrow> 0 \<le> a \<Longrightarrow> 0 \<le> k \<Longrightarrow> meterInvariant ((hurt a k ^^ n) s)"
  by (induction n) (simp_all add: meterInvariant_hurt)

lemma meterInvariant_collide: "meterInvariant s \<Longrightarrow> meterInvariant (collide s)"
  unfolding collide_def collideBlasters_funpow collideBones_funpow
  by (simp add: meterInvariant_funpow)

lemma meterInvariant_applyKR:
  "meterInvariant s \<Longrightarrow> 0 \<le> d \<Longrightarrow> meterInvariant (applyKR d s)"
  by (auto simp add: meterInvariant_def applyKR_def Let_def)

lemma meterInvariant_cong:
  "player s' = player s \<Longrightarrow> meterInvariant s' = meterInvariant s"
  by (simp add: meterInvariant_def)

lemma meterInvariant_before:
  "meterInvariant (updateBlasters (updateBones (clampToStage (movePlayer (menuTiming (tick d s)))))) =
   meterInvariant s"
  by (simp add: meterInvariant_def before_fields)

lemma meterInvariant_update:
  assumes "meterInvariant s" and "0 \<le> d"
  shows "meterInvariant (update d s)"
proof (cases "running (game s)")
  case False
  then show ?thesis using assms by (simp add: update_not_running)
next
  case True
  show ?thesis
  proof (cases "introActive (game s)")
    case True
    show ?thesis
      using assms(1)
      by (simp add: update_intro [OF \<open>running (game s)\<close> True] meterInvariant_def updateUI_fields tick_fields)
  next
    case False
    let ?s6 = "updateBlasters (updateBones (clampToStage (movePlayer (menuTiming (tick d s)))))"
    have "meterInvariant ?s6"
      using assms by (simp only: meterInvariant_before)
    then have "meterInvariant (collide ?s6)"
      by (rule meterInvariant_collide)
    then have "meterInvariant (applyKR d (collide ?s6))"
      using assms(2) by (rule meterInvariant_applyKR)
    moreover have "player (update d s) = player (applyKR d (collide ?s6))"
      by (simp add: update_phases [OF True False] after_fields)
    ultimately show ?thesis
      by (simp add: meterInvariant_def)
  qed
qed

lemma frame_update:
  assumes "running (game s)"
  shows "frame (game (update d s)) = Suc (frame (game s))"
proof (cases "introActive (game s)")
  case True
  show ?thesis
    by (simp add: update_intro [OF assms True] after_fields before_fields)
next
  case False
  show ?thesis
    by (simp add: update_phases [OF assms False] after_fields meters_fields before_fields)
qed

lemma subphaseTime_update:
  assumes "running (game s)"
  shows "subphaseTime (game (update d s)) = subphaseTime (game s) + d"
proof (cases "introActive (game s)")
  case True
  show ?thesis
    by (simp add: update_intro [OF assms True] after_fields before_fields)
next
  case False
  show ?thesis
    by (simp add: update_phases [OF assms False] after_fields meters_fields before_fields)
qed

lemma update_moveThisFrame_blue:
  assumes "running (game s)" and "\<not> introActive (game s)" and "soulColor (game s) = Blue"
  shows "moveThisFrame (player (update d s)) =
     (key_left s \<or> key_right s \<or> (key_up s \<and> onGround (player s)))"
proof -
  let ?s2 = "menuTiming (tick d s)"
  have "moveThisFrame (player (update d s)) = moveThisFrame (player (movePlayer ?s2))"
    by (simp add: update_phases [OF assms(1,2)] after_fields meters_fields before_fields)
  also have "\<dots> = (key_left ?s2 \<or> key_right ?s2 \<or> (key_up ?s2 \<and> onGround (player ?s2)))"
    by (rule movePlayer_blue) (simp add: assms menuTiming_fields tick_fields)
  also have "\<dots> = (key_left s \<or> key_right s \<or> (key_up s \<and> onGround (player s)))"
    by (simp add: key_left_def key_right_def key_up_def menuTiming_fields tick_fields)
  finally show ?thesis .
qed

subsection \<open>The blocks of a tick, whatever the elapsed time\<close>

lemma player_funpow_hurt:
  "player ((hurt a k ^^ n) s) =
     ((\<lambda>p. p\<lparr>hp := hp p - a, kr := min 60 (kr p + k)\<rparr>) ^^ n) (player s)"
  by (induction n) (simp_all add: hurt_player)

lemma boneHits_cong:
  assumes "player s = player t"
  shows "boneHits s bs = boneHits t bs"
proof -
  have "damaging s = damaging t"
    using assms by (intro ext) (simp add: damaging_def touches_def)
  then show ?thesis by (simp add: boneHits_def)
qed

lemma beamHits_cong:
  assumes "player s = player t"
  shows "beamHits s gs = beamHits t gs"
proof -
  have "beamStrikes s = beamStrikes t"
    using assms by (intro ext) (simp add: beamStrikes_def beamProj_def beamPerp_def)
  then show ?thesis by (simp add: beamHits_def)
qed

lemma collide_player_cong:
  assumes "player s = player t" and "bones s = bones t" and "blasters s = blasters t"
  shows "player (collide s) = player (collide t)"
proof -
  let ?s1 = "(hurt 1.2 5 ^^ boneHits s (bones s)) s"
  let ?t1 = "(hurt 1.2 5 ^^ boneHits t (bones t)) t"
  have n: "boneHits s (bones s) = boneHits t (bones t)"
    using boneHits_cong [OF assms(1), of "bones s"] assms(2) by simp
  have p1: "player ?s1 = player ?t1"
    using assms(1) n by (simp add: player_funpow_hurt)
  have g1: "blasters ?s1 = blasters ?t1"
    using assms(3) by (simp add: onlyMeters_fields [OF onlyMeters_funpow])
  have m: "beamHits ?s1 (blasters ?s1) = beamHits ?t1 (blasters ?t1)"
    using beamHits_cong [OF p1, of "blasters ?s1"] g1 by simp
  show ?thesis
    unfolding collide_def collideBlasters_funpow collideBones_funpow
    using p1 m by (simp add: player_funpow_hurt)
qed

lemma applyKR_player_cong: "player s = player t \<Longrightarrow> player (applyKR d s) = player (applyKR d t)"
  by (simp add: applyKR_def Let_def)

lemma movePlayer_player:
  "player (movePlayer s) =
     (if soulColor (game s) = Red then moveRed s ((player s)\<lparr>moveThisFrame := False\<rparr>)
      else moveBlue s ((player s)\<lparr>moveThisFrame := False\<rparr>))"
  by (simp add: movePlayer_def Let_def)

lemma moveRed_cong:
  assumes "keys s = keys t"
  shows "moveRed s p = moveRed t p"
  unfolding moveRed_def key_left_def key_right_def key_up_def key_down_def
  by (simp only: assms)

lemma moveBlue_cong:
  assumes "keys s = keys t" and "gravity (game s) = gravity (game t)"
  shows "moveBlue s p = moveBlue t p"
  unfolding moveBlue_def key_left_def key_right_def key_up_def key_down_def
  by (simp only: assms)

lemma movePlayer_tick:
  "player (movePlayer (menuTiming (tick d s))) = player (movePlayer s)"
proof -
  let ?s2 = "menuTiming (tick d s)"
  have k: "keys ?s2 = keys s" and p: "player ?s2 = player s"
    and c: "soulColor (game ?s2) = soulColor (game s)"
    by (simp_all add: menuTiming_fields tick_fields)
  have g: "gravity (game ?s2) = gravity (game s)"
    by (simp add: menuTiming_def resetForMenu_def tick_def)
  show ?thesis
    by (simp only: movePlayer_player p c moveRed_cong [OF k] moveBlue_cong [OF k g])
qed

lemma clamp_cong:
  "player s = player t \<Longrightarrow> width (game s) = width (game t) \<Longrightarrow>
   height (game s) = height (game t) \<Longrightarrow> player (clampToStage s) = player (clampToStage t)"
  by (simp add: clampToStage_def Let_def)

lemma movePlayer_rest:
  "game (movePlayer s) = game s" "bones (movePlayer s) = bones s"
  "blasters (movePlayer s) = blasters s" "keys (movePlayer s) = keys s"
  "stallTimer (movePlayer s) = stallTimer s" "napMode (movePlayer s) = napMode s"
  by (simp_all add: movePlayer_def Let_def)

lemma clampToStage_rest:
  "game (clampToStage s) = game s" "bones (clampToStage s) = bones s"
  "blasters (clampToStage s) = blasters s" "keys (clampToStage s) = keys s"
  "stallTimer (clampToStage s) = stallTimer s" "napMode (clampToStage s) = napMode s"
  by (simp_all add: clampToStage_def Let_def)

lemma tick_rest:
  "bones (tick d s) = bones s" "blasters (tick d s) = blasters s"
  "stallTimer (tick d s) = stallTimer s" "napMode (tick d s) = napMode s"
  "width (game (tick d s)) = width (game s)" "height (game (tick d s)) = height (game s)"
  "specialStall (game (tick d s)) = specialStall (game s)"
  by (simp_all add: tick_def)

lemma menuTiming_rest:
  "bones (menuTiming s) = bones s" "blasters (menuTiming s) = blasters s"
  "stallTimer (menuTiming s) = stallTimer s" "napMode (menuTiming s) = napMode s"
  "width (game (menuTiming s)) = width (game s)" "height (game (menuTiming s)) = height (game s)"
  "specialStall (game (menuTiming s)) = specialStall (game s)"
  by (simp_all add: menuTiming_def resetForMenu_def)

lemma updateBones_rest:
  "blasters (updateBones s) = blasters s" "keys (updateBones s) = keys s"
  "stallTimer (updateBones s) = stallTimer s" "napMode (updateBones s) = napMode s"
  by (simp_all add: updateBones_def)

lemma updateBlasters_rest:
  "bones (updateBlasters s) = bones s" "keys (updateBlasters s) = keys s"
  "stallTimer (updateBlasters s) = stallTimer s" "napMode (updateBlasters s) = napMode s"
  by (simp_all add: updateBlasters_def)

lemma updateBones_cong:
  "bones s = bones t \<Longrightarrow> width (game s) = width (game t) \<Longrightarrow>
   height (game s) = height (game t) \<Longrightarrow> bones (updateBones s) = bones (updateBones t)"
  by (simp add: updateBones_def offScreen_def)

lemma updateBlasters_cong:
  "blasters s = blasters t \<Longrightarrow> blasters (updateBlasters s) = blasters (updateBlasters t)"
  by (simp add: updateBlasters_def)

lemma tryAllowStallEscape_bones_cong:
  "bones s = bones t \<Longrightarrow> keys s = keys t \<Longrightarrow> stallTimer s = stallTimer t \<Longrightarrow>
   napMode s = napMode t \<Longrightarrow> specialStall (game s) = specialStall (game t) \<Longrightarrow>
   bones (tryAllowStallEscape d s) = bones (tryAllowStallEscape d t)"
  by (simp add: tryAllowStallEscape_def moving_def setDialogue_def spawnBone_def Let_def)

lemma tail_rest:
  "blasters (tryAllowStallEscape d s) = blasters s"
  "bones (offerFinisher s) = bones s" "blasters (offerFinisher s) = blasters s"
  "bones (updateUI s) = bones s" "blasters (updateUI s) = blasters s"
  by (simp_all add: tryAllowStallEscape_def offerFinisher_def updateUI_def setDialogue_def
        spawnBone_def resetForMenu_def Let_def)

lemma update_blocks:
  assumes r: "running (game s)" and i: "\<not> introActive (game s)"
  shows "player (update d s) = player (applyKR d (collide (advance s)))"
    and "blasters (update d s) = blasters (updateBlasters s)"
    and "bones (update d s) = bones (tryAllowStallEscape d (updateBones s))"
proof -
  let ?s2 = "menuTiming (tick d s)"
  let ?s6 = "updateBlasters (updateBones (clampToStage (movePlayer ?s2)))"
  let ?s9 = "applyKR d (collide ?s6)"
  have p6: "player ?s6 = player (advance s)"
    unfolding advance_def
    by (simp add: updateBones_fields updateBlasters_fields)
       (rule clamp_cong, simp_all add: movePlayer_tick movePlayer_rest menuTiming_rest tick_rest)
  have b6: "bones ?s6 = bones (advance s)"
    unfolding advance_def
    by (simp add: updateBlasters_rest)
       (rule updateBones_cong,
        simp_all add: clampToStage_rest movePlayer_rest menuTiming_rest tick_rest)
  have g6: "blasters ?s6 = blasters (advance s)"
    unfolding advance_def
    by (rule updateBlasters_cong)
       (simp add: updateBones_rest clampToStage_rest movePlayer_rest menuTiming_rest tick_rest)
  have "player (collide ?s6) = player (collide (advance s))"
    using p6 b6 g6 by (rule collide_player_cong)
  then have "player ?s9 = player (applyKR d (collide (advance s)))"
    by (rule applyKR_player_cong)
  then show "player (update d s) = player (applyKR d (collide (advance s)))"
    by (simp add: update_phases [OF r i] after_fields)
  have "blasters (update d s) = blasters ?s6"
    by (simp add: update_phases [OF r i] tail_rest meters_fields)
  also have "\<dots> = blasters (updateBlasters s)"
    by (rule updateBlasters_cong)
       (simp add: updateBones_rest clampToStage_rest movePlayer_rest menuTiming_rest tick_rest)
  finally show "blasters (update d s) = blasters (updateBlasters s)" .
  have "bones (update d s) = bones (tryAllowStallEscape d ?s9)"
    by (simp add: update_phases [OF r i] tail_rest)
  also have "\<dots> = bones (tryAllowStallEscape d (updateBones s))"
  proof (rule tryAllowStallEscape_bones_cong)
    show "bones ?s9 = bones (updateBones s)"
      by (simp add: meters_fields updateBlasters_rest)
         (rule updateBones_cong,
          simp_all add: clampToStage_rest movePlayer_rest menuTiming_rest tick_rest)
    show "keys ?s9 = keys (updateBones s)"
      by (simp add: meters_fields updateBlasters_rest updateBones_rest clampToStage_rest
            movePlayer_rest menuTiming_fields tick_fields)
    show "stallTimer ?s9 = stallTimer (updateBones s)"
      by (simp add: meters_fields updateBlasters_rest updateBones_rest clampToStage_rest
            movePlayer_rest menuTiming_rest tick_rest)
    show "napMode ?s9 = napMode (updateBones s)"
      by (simp add: meters_fields updateBlasters_rest updateBones_rest clampToStage_rest
            movePlayer_rest menuTiming_rest tick_rest)
    show "specialStall (game ?s9) = specialStall (game (updateBones s))"
      by (simp add: meters_fields updateBlasters_fields updateBones_fields clampToStage_rest
            movePlayer_rest menuTiming_rest tick_rest)
  qed
  finally show "bones (update d s) = bones (tryAllowStallEscape d (updateBones s))" .
qed


section \<open>The meters stay in range\<close>

lemma meterInvariant_meters:
  "meterInvariant s =
     (0 \<le> fst (snd (meters s)) \<and> fst (snd (meters s)) \<le> 60 \<and>
      fst (meters s) \<le> snd (snd (meters s)))"
  by (simp add: meters_def meterInvariant_def)

lemma meters_basic [simp]:
  "meters (spawnBone x y w h c vx vy s) = meters s"
  "meters (spawnBlaster x y a s) = meters s"
  "meters (setTimeout e ms s) = meters s"
  "meters (setDialogue t s) = meters s"
  "meters (resetForMenu s) = meters s"
  "meters (leaveMenu s) = meters s"
  "meters (updateUI s) = meters s"
  "meters (clearIntroTimer s) = meters s"
  by (simp_all add: meters_def spawnBone_def spawnBlaster_def setTimeout_def setDialogue_def
        resetForMenu_def leaveMenu_def updateUI_def clearIntroTimer_def)

lemma meters_updates [simp]:
  "meters (s\<lparr>game := g\<rparr>) = meters s"
  "meters (s\<lparr>bones := bs\<rparr>) = meters s"
  "meters (s\<lparr>blasters := gs\<rparr>) = meters s"
  "meters (s\<lparr>keys := ks\<rparr>) = meters s"
  "meters (s\<lparr>timers := ts\<rparr>) = meters s"
  "meters (s\<lparr>introIdx := i\<rparr>) = meters s"
  "meters (s\<lparr>last := t0\<rparr>) = meters s"
  "meters (s\<lparr>player := p\<rparr>) = (hp p, kr p, hpMax p)"
  by (simp_all add: meters_def)

lemma meters_fold:
  "(\<And>x st. meters (f x st) = meters st) \<Longrightarrow> meters (fold f xs s) = meters s"
  by (induction xs arbitrary: s) simp_all

lemma meters_forUpto:
  "(\<And>i st. meters (body i st) = meters st) \<Longrightarrow> meters (forUpto n body s) = meters s"
  by (simp add: forUpto_def meters_fold)

lemma meters_patterns [simp]:
  "meters (patternSweepAndBlaster s) = meters s"
  "meters (patternStairsAndSwipe s) = meters s"
  "meters (patternBlueWhiteColumns s) = meters s"
  "meters (patternPendulum s) = meters s"
  "meters (patternTelekinesisDrops s) = meters s"
  "meters (patternMazeRun s) = meters s"
  "meters (patternSawtoothFlip s) = meters s"
  "meters (patternGauntlet s) = meters s"
  "meters (specialAttackStallSetup s) = meters s"
  by (simp_all add: patternSweepAndBlaster_def patternStairsAndSwipe_def
        patternBlueWhiteColumns_def patternPendulum_def patternTelekinesisDrops_def
        patternMazeRun_def patternSawtoothFlip_def patternGauntlet_def
        specialAttackStallSetup_def Let_def meters_fold meters_forUpto)
     (simp add: meters_def setDialogue_def)

lemma meters_nextAttack [simp]: "meters (nextAttack s) = meters s"
  by (simp add: nextAttack_def Let_def) (simp add: meters_def)

lemma meters_startColdOpen [simp]: "meters (startColdOpen s) = meters s"
  by (simp add: startColdOpen_def Let_def meters_forUpto)

lemma meters_advanceIntro [simp]: "meters (advanceIntro s) = meters s"
  by (simp add: advanceIntro_def Let_def)

lemma meters_runEffect [simp]: "meters (runEffect e s) = meters s"
  by (induction e arbitrary: s) (simp_all, simp add: meters_def)

lemma meterInvariant_boot: "meterInvariant (boot w h t0)"
  by (simp add: meterInvariant_def boot_def startBattle_def startIntro_def updateUI_def
        setTimeout_def setDialogue_def initial_def Let_def)

lemma meterInvariant_loop:
  assumes "meterInvariant s" and "last s \<le> now"
  shows "meterInvariant (loop now s)"
proof -
  have "meterInvariant (s\<lparr>last := now\<rparr>)"
    using assms(1) by (simp add: meterInvariant_def)
  moreover have "0 \<le> min 32 (now - last s)"
    using assms(2) by simp
  ultimately show ?thesis
    by (simp add: loop_def Let_def meterInvariant_update)
qed

lemma meterInvariant_onMenuAction:
  assumes "meterInvariant s"
  shows "meterInvariant (onMenuAction a s)"
proof -
  have heal: "meterInvariant (s\<lparr>player := (player s)\<lparr>hp := min (hpMax (player s)) (hp (player s) + 18)\<rparr>\<rparr>)"
    using assms by (simp add: meterInvariant_def)
  show ?thesis
    using assms heal
    by (simp add: onMenuAction_def finishingStrike_def Let_def meterInvariant_meters)
qed

lemma meterInvariant_handleKeysDown:
  "meterInvariant s \<Longrightarrow> meterInvariant (handleKeysDown rep k s)"
  by (simp add: handleKeysDown_def Let_def meterInvariant_meters)

lemma meterInvariant_handleKeysUp:
  "meterInvariant s \<Longrightarrow> meterInvariant (handleKeysUp k s)"
  by (simp add: handleKeysUp_def meterInvariant_meters)

lemma meterInvariant_fireTimer:
  "meterInvariant s \<Longrightarrow> meterInvariant (fireTimer i s)"
  by (simp add: fireTimer_def meterInvariant_meters)

lemma reachable_meterInvariant: "reachable s \<Longrightarrow> meterInvariant s"
proof (induction rule: reachable.induct)
  case (r_boot w h t0)
  show ?case by (rule meterInvariant_boot)
next
  case (r_frame s now)
  then show ?case by (simp add: meterInvariant_loop)
next
  case (r_menu s a)
  then show ?case by (simp add: meterInvariant_onMenuAction)
next
  case (r_keydown s rep k)
  then show ?case by (simp add: meterInvariant_handleKeysDown)
next
  case (r_keyup s k)
  then show ?case by (simp add: meterInvariant_handleKeysUp)
next
  case (r_timer s i)
  then show ?case by (simp add: meterInvariant_fireTimer)
qed


section \<open>Properties of a tick\<close>

text \<open>
  C10. While the intro dialogue is active and the game is running, a call of
  \<open>update\<close> changes the frame counter (one more), the subphase timer (advanced by
  the elapsed time) and the HP/KR display, and nothing else: the soul, the bones, the
  blasters, the phase index and the menu flag are as before.
\<close>

theorem intro_tick:
  assumes "running (game s)" and "introActive (game s)"
  shows "update d s =
           s\<lparr>game := (game s)\<lparr>frame := Suc (frame (game s)),
                               subphaseTime := subphaseTime (game s) + d\<rparr>,
             hud := \<lparr>hud_hp = max 0 \<lfloor>hp (player s)\<rfloor>, hud_hpMax = hpMax (player s),
                     hud_kr = \<lfloor>kr (player s)\<rfloor>\<rparr>\<rparr> \<and>
         player (update d s) = player s \<and> bones (update d s) = bones s \<and>
         blasters (update d s) = blasters s \<and>
         phaseIndex (game (update d s)) = phaseIndex (game s) \<and>
         inMenu (game (update d s)) = inMenu (game s) \<and>
         frame (game (update d s)) = Suc (frame (game s)) \<and>
         subphaseTime (game (update d s)) = subphaseTime (game s) + d"
  by (simp add: update_intro [OF assms] tick_def updateUI_def)

text \<open>The first frame after booting, 16 ms long.\<close>

theorem intro_tick_witness:
  "running (game (boot 640 480 0)) \<and> introActive (game (boot 640 480 0)) \<and>
   player (update 16 (boot 640 480 0)) = player (boot 640 480 0) \<and>
   bones (update 16 (boot 640 480 0)) = [] \<and> blasters (update 16 (boot 640 480 0)) = [] \<and>
   frame (game (update 16 (boot 640 480 0))) = 1 \<and>
   subphaseTime (game (update 16 (boot 640 480 0))) = 16"
proof -
  have r: "running (game (boot 640 480 0))" and i: "introActive (game (boot 640 480 0))"
    by (simp_all add: boot_state)
  show ?thesis
    using r i intro_tick [OF r i, of 16] by (simp add: boot_state)
qed

text \<open>Ticks of 0 ms and of -16 ms after the intro, block by block and as a whole.\<close>

lemma afterIntro_advance:
  "p_y (player (applyKR (-16) (collide (advance afterIntro)))) = 360.28 \<and>
   p_vy (player (applyKR (-16) (collide (advance afterIntro)))) = 0.28 \<and>
   map b_y (bones (tryAllowStallEscape (-16) (updateBones afterIntro))) = replicate 8 417.5"
  apply (simp add: advance_def afterIntro_state)
  apply (simp add: eval_move)
  apply (simp add: eval_entities)
  apply (simp add: collide_def eval_collide)
  apply (simp add: eval_rest eval_nat_numeral)
  done

lemma afterIntro_tick_neg:
  "p_y (player (update (-16) afterIntro)) = 360.28 \<and>
   map b_y (bones (update (-16) afterIntro)) = replicate 8 417.5 \<and>
   subphaseTime (game (update (-16) afterIntro)) = -16"
  apply (simp add: update_def Let_def afterIntro_state)
  apply (simp add: eval_move)
  apply (simp add: eval_entities)
  apply (simp add: eval_collide)
  apply (simp add: eval_rest eval_nat_numeral)
  done

text \<open>
  C9, as the code has it. \<open>update\<close> has no guard on the elapsed time. Called with
  an elapsed time of 0 or less it does nothing exactly when the game is not running.
  While the game runs it counts the frame and adds the elapsed time to the subphase
  timer, and after the intro it runs the blocks of any tick: the soul is moved by
  input and physics and clamped, the bones and blasters advance and the spent ones
  are removed, the collisions are resolved, and then \<open>applyKR\<close> and the idle check
  of the stall get the elapsed time as it is. (\<open>update_blocks\<close> shows the same
  equations for every elapsed time.)
\<close>

theorem update_nonpositive_delta:
  assumes "d \<le> 0"
  shows "(update d s = s) = (\<not> running (game s)) \<and>
    (running (game s) \<longrightarrow>
       frame (game (update d s)) = Suc (frame (game s)) \<and>
       subphaseTime (game (update d s)) = subphaseTime (game s) + d) \<and>
    (running (game s) \<and> \<not> introActive (game s) \<longrightarrow>
       player (update d s) = player (applyKR d (collide (advance s))) \<and>
       blasters (update d s) = blasters (updateBlasters s) \<and>
       bones (update d s) = bones (tryAllowStallEscape d (updateBones s)))"
proof (cases "running (game s)")
  case False
  then show ?thesis by (simp add: update_not_running)
next
  case True
  have "frame (game (update d s)) \<noteq> frame (game s)"
    using True by (simp add: frame_update)
  then have "update d s \<noteq> s" by auto
  with True show ?thesis
    by (simp add: frame_update subphaseTime_update update_blocks)
qed

text \<open>A tick of -16 ms after the intro: the soul falls, the bones rise, the subphase
  timer runs backwards.\<close>

theorem update_nonpositive_delta_witness:
  "(-16::real) \<le> 0 \<and> running (game afterIntro) \<and> \<not> introActive (game afterIntro) \<and>
   update (-16) afterIntro \<noteq> afterIntro \<and>
   frame (game (update (-16) afterIntro)) = 1 \<and>
   subphaseTime (game (update (-16) afterIntro)) = -16 \<and>
   p_y (player (update (-16) afterIntro)) = 360.28 \<and>
   map b_y (bones (update (-16) afterIntro)) = replicate 8 417.5"
proof -
  have r: "running (game afterIntro)" and i: "\<not> introActive (game afterIntro)"
    by (simp_all add: afterIntro_state)
  have f: "frame (game afterIntro) = 0" and t: "subphaseTime (game afterIntro) = 0"
    by (simp_all add: afterIntro_state)
  show ?thesis
    using update_nonpositive_delta [of "-16" afterIntro] r i f t afterIntro_advance by simp
qed

text \<open>After the intro a call with no time elapsed, or with a negative time, is not a
  no-op: the soul falls from 360 to 360.28 and the bones rise from 420 to 417.5; the
  negative time also runs the subphase timer backwards.\<close>

theorem update_zero_delta_counterexample:
  "p_y (player afterIntro) = 360 \<and> p_y (player (update 0 afterIntro)) = 360.28 \<and>
   p_y (player (update (-16) afterIntro)) = 360.28 \<and>
   map b_y (bones afterIntro) = replicate 8 420 \<and>
   map b_y (bones (update 0 afterIntro)) = replicate 8 417.5 \<and>
   map b_y (bones (update (-16) afterIntro)) = replicate 8 417.5 \<and>
   subphaseTime (game afterIntro) = 0 \<and> subphaseTime (game (update (-16) afterIntro)) = -16"
  using afterIntro_tick0 afterIntro_tick_neg
  by (simp add: afterIntro_state eval_nat_numeral)

text \<open>
  C8, as the code has it. In platforming mode (blue soul), after a tick outside the
  intro \<open>moveThisFrame\<close> is set exactly when left or right is held, or the jump key
  is held while the soul stood on the ground when the tick began, so that the jump
  starts. A jump key held in the air does not count, nor does the down key.
\<close>

theorem platforming_moved:
  assumes "running (game s)" and "\<not> introActive (game s)" and "soulColor (game s) = Blue"
  shows "moveThisFrame (player (update d s)) =
     (key_left s \<or> key_right s \<or> (key_up s \<and> onGround (player s)))"
  using assms by (rule update_moveThisFrame_blue)

text \<open>After the intro the soul is in the air; with the left key held it moves.\<close>

theorem platforming_moved_witness:
  "running (game (handleKeysDown False ''a'' afterIntro)) \<and>
   \<not> introActive (game (handleKeysDown False ''a'' afterIntro)) \<and>
   soulColor (game (handleKeysDown False ''a'' afterIntro)) = Blue \<and>
   moveThisFrame (player (update 16 (handleKeysDown False ''a'' afterIntro)))"
proof -
  let ?s = "handleKeysDown False ''a'' afterIntro"
  have f: "running (game ?s)" "\<not> introActive (game ?s)" "soulColor (game ?s) = Blue"
    "key_left ?s"
    by (simp_all add: afterIntro_state eval_keys key_left_def)
  show ?thesis
    using f platforming_moved [OF f(1,2,3), of 16] by simp
qed

text \<open>After the intro the soul is in the air; with only the jump key W held, a
  movement key is down during the tick and \<open>moveThisFrame\<close> stays unset.\<close>

theorem platforming_jump_counterexample:
  "soulColor (game (handleKeysDown False ''w'' afterIntro)) = Blue \<and>
   key_up (handleKeysDown False ''w'' afterIntro) \<and>
   \<not> moveThisFrame (player (update 16 (handleKeysDown False ''w'' afterIntro)))"
proof -
  let ?s = "handleKeysDown False ''w'' afterIntro"
  have f: "running (game ?s)" "\<not> introActive (game ?s)" "soulColor (game ?s) = Blue"
    "key_up ?s" "\<not> key_left ?s" "\<not> key_right ?s" "\<not> onGround (player ?s)"
    by (simp_all add: afterIntro_state eval_keys key_up_def key_left_def key_right_def)
  show ?thesis
    using f update_moveThisFrame_blue [OF f(1,2,3), of 16] by simp
qed


section \<open>Hits in a whole tick\<close>

lemma updateBlasters_alive:
  "blasters (updateBlasters s) = map tickBlaster (filter (\<lambda>g. 1 < g_life g) (blasters s))"
proof -
  have "(\<lambda>g. \<not> g_life (tickBlaster g) \<le> 0) = (\<lambda>g. 1 < g_life g)"
    by (auto simp add: tickBlaster_def)
  then show ?thesis
    by (simp add: updateBlasters_def filter_map comp_def)
qed

text \<open>
  What the beam test does. A tick first takes one from the lifetime of every blaster
  and removes those that reach 0, so the beam test sees the blasters whose lifetime
  before the tick was above 1. A blaster at the beam test hits the soul exactly when
  its lifetime (already decremented) is strictly below 40, the forward projection of
  the soul's centre on the ray is strictly between 0 and 800 and the perpendicular
  distance is strictly below 22. Each such blaster applies one hit of 0.9 hp and 6
  corruption (capped at 60); every other blaster leaves the state as it is.
\<close>

lemma beam_test:
  "blasters (updateBlasters s) = map tickBlaster (filter (\<lambda>g. 1 < g_life g) (blasters s)) \<and>
   hitByBeam g s =
     (if g_life g < 40 \<and> 0 < beamProj s g \<and> beamProj s g < 800 \<and> beamPerp s g < 22
      then hurt 0.9 6 s else s) \<and>
   collideBlasters gs s = (hurt 0.9 6 ^^ beamHits s gs) s \<and>
   hp (player (collideBlasters gs s)) = hp (player s) - 0.9 * real (beamHits s gs) \<and>
   kr (player (collideBlasters gs s)) =
     (if beamHits s gs = 0 then kr (player s)
      else min 60 (kr (player s) + 6 * real (beamHits s gs)))"
  using kr_funpow_hurt [of 6 "beamHits s gs" "9 / 10" s] hitByBeam_strikes [of g s]
  by (simp add: updateBlasters_alive collideBlasters_funpow hp_funpow_hurt mult.commute
        beamStrikes_def)

text \<open>A blaster at the left edge firing to the right, 39 ticks left, with the soul of
  the initial state on its ray: one hit.\<close>

lemma beam_test_example:
  "hp (player (collideBlasters
        [\<lparr>g_x = 0, g_y = 366, g_angle = 0, g_charge = 30, g_fire = 20, g_life = 39\<rparr>]
        (initial 640 480 0))) = 91.1 \<and>
   kr (player (collideBlasters
        [\<lparr>g_x = 0, g_y = 366, g_angle = 0, g_charge = 30, g_fire = 20, g_life = 39\<rparr>]
        (initial 640 480 0))) = 6"
  using beam_test
    [of "initial 640 480 0"
        "\<lparr>g_x = 0, g_y = 366, g_angle = 0, g_charge = 30, g_fire = 20, g_life = 39\<rparr>"
        "[\<lparr>g_x = 0, g_y = 366, g_angle = 0, g_charge = 30, g_fire = 20, g_life = 39\<rparr>]"]
  by (simp add: beamHits_def beamStrikes_def beamProj_def beamPerp_def initial_def hurt_player)

text \<open>Whole ticks of 16 ms with the blaster of \<open>beamScene\<close>, the soul on its ray.
  With 41 ticks left before the tick the blaster is tested at 40 and does not fire;
  with 40 left it is tested at 39 and fires (0.9 hp, then 1.28 hp of drain); with 1
  left it is removed before the test.\<close>

lemma beamScene_tick_41:
  "blasters (update 16 (beamScene 41)) =
     [\<lparr>g_x = 0, g_y = 366, g_angle = 0, g_charge = 30, g_fire = 20, g_life = 40\<rparr>] \<and>
   hp (player (update 16 (beamScene 41))) = 92 \<and> kr (player (update 16 (beamScene 41))) = 0"
  apply (simp add: update_def Let_def beamScene_def initial_def)
  apply (simp add: eval_move)
  apply (simp add: eval_entities)
  apply (simp add: eval_collide)
  apply (simp add: eval_rest)
  done

lemma beamScene_tick_40:
  "blasters (update 16 (beamScene 40)) =
     [\<lparr>g_x = 0, g_y = 366, g_angle = 0, g_charge = 30, g_fire = 20, g_life = 39\<rparr>] \<and>
   hp (player (update 16 (beamScene 40))) = 89.82 \<and>
   kr (player (update 16 (beamScene 40))) = 5.68"
  apply (simp add: update_def Let_def beamScene_def initial_def)
  apply (simp add: eval_move)
  apply (simp add: eval_entities)
  apply (simp add: eval_collide)
  apply (simp add: eval_rest)
  done

lemma beamScene_tick_1:
  "blasters (update 16 (beamScene 1)) = [] \<and>
   hp (player (update 16 (beamScene 1))) = 92 \<and> kr (player (update 16 (beamScene 1))) = 0"
  apply (simp add: update_def Let_def beamScene_def initial_def)
  apply (simp add: eval_move)
  apply (simp add: eval_entities)
  apply (simp add: eval_rest)
  done

text \<open>A blaster is spawned with a lifetime of 70. Counting the ticks from its spawn,
  it is in the array with its beam active at the ticks 31 to 69: 39 ticks, where the
  source's comment on the test announces that the last 40 frames are beam.\<close>

lemma fresh_blaster_after:
  "blasters ((updateBlasters ^^ k) (spawnBlaster x y a (initial w h t0))) =
     (if k < 70
      then [\<lparr>g_x = x, g_y = y, g_angle = a, g_charge = 30, g_fire = 20, g_life = 70 - int k\<rparr>]
      else [])"
proof (induction k)
  case 0
  show ?case by (simp add: spawnBlaster_def initial_def)
next
  case (Suc k)
  then show ?case
    by (simp add: updateBlasters_def tickBlaster_def)
qed

lemma beam_frames:
  "{k. list_ex beamActive (blasters ((updateBlasters ^^ k) (spawnBlaster x y a (initial w h t0))))} =
     {31..69} \<and>
   card {k. list_ex beamActive
              (blasters ((updateBlasters ^^ k) (spawnBlaster x y a (initial w h t0))))} = 39"
proof -
  have "{k. list_ex beamActive
              (blasters ((updateBlasters ^^ k) (spawnBlaster x y a (initial w h t0))))} = {31..69}"
    by (auto simp add: fresh_blaster_after beamActive_def)
  then show ?thesis by simp
qed

text \<open>
  C4. The claim puts the start of the beam at a remaining lifetime of 40, as the
  comment in the source does; the test in the code is \<open>g.life < 40\<close>. A blaster
  whose lifetime is exactly 40 at the beam test, the soul on its ray (forward
  projection 326, perpendicular distance 0), does not hurt. In whole ticks of 16 ms:
  the blaster that had 41 ticks left before the tick (40 at the test) leaves hp at
  92, and so does the one that had 1 tick left, which is removed before the test.
\<close>

theorem beam_threshold_unfired:
  "g_life \<lparr>g_x = 0, g_y = 366, g_angle = 0, g_charge = 30, g_fire = 20, g_life = 40\<rparr> \<le> 40 \<and>
   0 < beamProj (initial 640 480 0)
         \<lparr>g_x = 0, g_y = 366, g_angle = 0, g_charge = 30, g_fire = 20, g_life = 40\<rparr> \<and>
   beamProj (initial 640 480 0)
         \<lparr>g_x = 0, g_y = 366, g_angle = 0, g_charge = 30, g_fire = 20, g_life = 40\<rparr> < beamLength \<and>
   beamPerp (initial 640 480 0)
         \<lparr>g_x = 0, g_y = 366, g_angle = 0, g_charge = 30, g_fire = 20, g_life = 40\<rparr> < beamWidth \<and>
   collideBlasters [\<lparr>g_x = 0, g_y = 366, g_angle = 0, g_charge = 30, g_fire = 20, g_life = 40\<rparr>]
     (initial 640 480 0) = initial 640 480 0 \<and>
   hp (player (beamScene 41)) = 92 \<and> hp (player (update 16 (beamScene 41))) = 92 \<and>
   hp (player (beamScene 1)) = 92 \<and> hp (player (update 16 (beamScene 1))) = 92"
  using beamScene_tick_41 beamScene_tick_1
  by (simp add: beamProj_def beamPerp_def beamLength_def beamWidth_def initial_def
        hitByBeam_def beamActive_def beamScene_def)

text \<open>A whole tick of 16 ms with one white bone over the soul (hp 92, corruption 0):
  the hit leaves hp 90.8 and corruption 5, and the drain that follows in the same tick
  takes 1.28 hp and 0.32 of corruption.\<close>

lemma boneScene_tick:
  "hp (player (update 16 boneScene)) = 89.52 \<and> kr (player (update 16 boneScene)) = 4.68 \<and>
   hp (player (update 0 boneScene)) = 90.8 \<and> kr (player (update 0 boneScene)) = 5"
  apply (simp add: update_def Let_def boneScene_def initial_def)
  apply (simp add: eval_move)
  apply (simp add: eval_entities)
  apply (simp add: eval_collide)
  apply (simp add: eval_rest)
  done

section \<open>Corruption drain\<close>

lemma drainScene_tick:
  "update 32 drainScene =
     \<lparr>game = \<lparr>width = 640, height = 480, frame = 1, running = True, phaseIndex = 0,
              subphaseTime = 32, gravity = 7 / 10, soulColor = Blue, inMenu = False,
              specialStall = False, finished = False, introActive = False\<rparr>,
      player = \<lparr>p_x = 320, p_y = 9007 / 25, p_vx = 0, p_vy = 7 / 25, p_width = 12,
                p_height = 12, speed = 3, jump = 9, onGround = False, moveThisFrame = False,
                hp = - (39 / 25), hpMax = 92, kr = 234 / 25\<rparr>,
      keys = {}, bones = [], blasters = [], stallTimer = 0, napMode = False, introIdx = 0,
      dialogue = [], hud = \<lparr>hud_hp = 0, hud_hpMax = 92, hud_kr = 9\<rparr>, timers = [],
      last = 0\<rparr>"
  apply (simp add: update_def Let_def drainScene_def initial_def)
  apply (simp add: eval_move)
  apply (simp add: eval_entities)
  apply (simp add: eval_rest)
  done

text \<open>
  C5, as the code has it. When corruption is above 0, \<open>applyKR\<close> takes
  \<open>min(corruption, 0.08 \<Delta>)\<close> from hp and then sets corruption to
  \<open>max(0, corruption - 0.02 \<Delta>)\<close>; when corruption is 0 it changes nothing. For
  \<open>\<Delta> \<ge> 0\<close> the hp taken is between 0 and \<open>0.08 \<Delta>\<close>, and corruption does not
  grow. The remaining hp plays no part in the amount taken.
\<close>

theorem corruption_drain:
  "(0 < kr (player s) \<longrightarrow>
      hp (player (applyKR d s)) = hp (player s) - min (kr (player s)) (0.08 * d) \<and>
      kr (player (applyKR d s)) = max 0 (kr (player s) - 0.02 * d)) \<and>
   (kr (player s) = 0 \<longrightarrow> applyKR d s = s) \<and>
   (0 \<le> d \<longrightarrow>
      0 \<le> hp (player s) - hp (player (applyKR d s)) \<and>
      hp (player s) - hp (player (applyKR d s)) \<le> 0.08 * d \<and>
      (0 \<le> kr (player s) \<longrightarrow> kr (player (applyKR d s)) \<le> kr (player s)))"
  by (auto simp add: applyKR_def Let_def)

text \<open>A soul with 10 of corruption and 32 ms elapsed: 2.56 hp drained, corruption
  down to 9.36.\<close>

theorem corruption_drain_witness:
  "0 < kr (player drainScene) \<and> (0::real) \<le> 32 \<and>
   hp (player drainScene) - hp (player (applyKR 32 drainScene)) = 2.56 \<and>
   kr (player (applyKR 32 drainScene)) = 9.36"
  using corruption_drain [of drainScene 32]
  by (simp add: drainScene_def initial_def)

text \<open>With no bone and no blaster in the arena, a soul at hp 1 with 10 of corruption
  is drained to hp -1.56 in one tick of 32 ms.\<close>

theorem drain_below_zero_counterexample:
  "0 < hp (player drainScene) \<and> bones drainScene = [] \<and> blasters drainScene = [] \<and>
   hp (player (applyKR 32 drainScene)) < 0 \<and> hp (player (update 32 drainScene)) < 0"
  by (simp add: drainScene_tick) (simp add: drainScene_def initial_def applyKR_def Let_def)

section \<open>Death\<close>

text \<open>A hit that leaves hp at 0 or below stops the game and shows the message, and a
  stopped game ignores \<open>update\<close>.\<close>

lemma hurt_death:
  "hp (player (hurt a k s)) \<le> 0 \<Longrightarrow>
   \<not> running (game (hurt a k s)) \<and> dialogue (hurt a k s) = ''you died. refresh to retry.''"
  by (simp add: hurt_def Let_def setDialogue_def split: if_splits)

text \<open>Still, the message of a fatal hit can be replaced before the tick is over: in
  the stall, with the player idle past 6000 ms, the idle check that follows the
  collisions writes its own line.\<close>

lemma death_message_overwritten:
  "hp (player (update 16 wallScene)) \<le> 0 \<and> \<not> running (game (update 16 wallScene)) \<and>
   dialogue (update 16 wallScene) = ''you feel the guard drop.''"
  apply (simp add: update_def Let_def wallScene_def napScene_def initial_def cageBones_def)
  apply (simp add: eval_move)
  apply (simp add: eval_entities)
  apply (simp add: eval_collide)
  apply (simp add: eval_rest)
  done

text \<open>
  C3. The claim holds for hits and fails for the corruption drain: \<open>applyKR\<close>
  lowers hp without the test that \<open>hurt\<close> makes. In the arena with no obstacle, a
  soul at hp 1 with 10 of corruption is at hp -1.56 after one tick of 32 ms; the
  game is still running, the dialogue is untouched and the next call of \<open>update\<close>
  is a tick like any other.
\<close>

theorem drain_death_unnoticed:
  "0 < hp (player drainScene) \<and> hp (player (update 32 drainScene)) \<le> 0 \<and>
   running (game (update 32 drainScene)) \<and>
   dialogue (update 32 drainScene) = dialogue drainScene \<and>
   frame (game (update 32 (update 32 drainScene))) = 2 \<and>
   update 32 (update 32 drainScene) \<noteq> update 32 drainScene"
proof -
  have r: "running (game (update 32 drainScene))"
    by (simp add: drainScene_tick)
  have f: "frame (game (update 32 (update 32 drainScene))) = Suc (frame (game (update 32 drainScene)))"
    using r by (rule frame_update)
  have "frame (game (update 32 (update 32 drainScene))) \<noteq> frame (game (update 32 drainScene))"
    using f by simp
  then have "update 32 (update 32 drainScene) \<noteq> update 32 drainScene"
    by auto
  then show ?thesis
    using f by (simp add: drainScene_tick) (simp add: drainScene_def initial_def)
qed


section \<open>The stall\<close>

lemmas eval_menu = onMenuAction_def finisherReady_def finishingStrike_def leaveMenu_def
  nextAttack_def specialAttackStallSetup_def spawnBone_def setDialogue_def updateUI_def Let_def

lemma onMenuAction_stall:
  assumes "inMenu (game s)" and "specialStall (game s)"
    and "a = ''FIGHT'' \<or> a = ''ACT'' \<or> a = ''ITEM'' \<or> a = ''MERCY''"
  shows "if a = ''FIGHT'' \<and> napMode s \<and> 8000 < stallTimer s \<and> \<not> finished (game s)
         then onMenuAction a s = finishingStrike s \<and>
              finished (game (onMenuAction a s)) \<and> \<not> running (game (onMenuAction a s)) \<and>
              \<not> inMenu (game (onMenuAction a s)) \<and>
              phaseIndex (game (onMenuAction a s)) = phaseIndex (game s) \<and>
              bones (onMenuAction a s) = bones s \<and> player (onMenuAction a s) = player s
         else \<not> inMenu (game (onMenuAction a s)) \<and>
              phaseIndex (game (onMenuAction a s)) = Suc (phaseIndex (game s)) \<and>
              subphaseTime (game (onMenuAction a s)) = 0 \<and>
              bones (onMenuAction a s) = cageBones \<and> blasters (onMenuAction a s) = [] \<and>
              hp (player (onMenuAction a s)) =
                (if a = ''ITEM'' then min (hpMax (player s)) (hp (player s) + 18)
                 else hp (player s)) \<and>
              finished (game (onMenuAction a s)) = finished (game s) \<and>
              running (game (onMenuAction a s)) = running (game s) \<and>
              stallTimer (onMenuAction a s) = stallTimer s \<and>
              napMode (onMenuAction a s) = napMode s \<and>
              dialogue (onMenuAction a s) = ''my special attack.''"
  using assms by (auto simp add: eval_menu cageBones_def)

text \<open>
  C6, as the code has it. In the stall with the menu open, FIGHT ends the encounter
  in a win exactly when the boss naps, the idle timer is strictly above 8000 ms and
  the encounter is not finished; the win leaves the phase index, the bones and the
  soul alone. In every other case the action (FIGHT, ACT, ITEM or MERCY) is not
  ignored: it closes the menu, empties the bone and blaster lists, zeroes the subphase
  timer, raises the phase index by one and builds the four walls of the cage again
  (ITEM heals 18 hp up to hpMax first); the idle timer and the nap flag are kept.
\<close>

theorem stall_menu_actions:
  assumes "inMenu (game s)" and "specialStall (game s)"
    and "a = ''FIGHT'' \<or> a = ''ACT'' \<or> a = ''ITEM'' \<or> a = ''MERCY''"
  shows "if a = ''FIGHT'' \<and> napMode s \<and> 8000 < stallTimer s \<and> \<not> finished (game s)
         then onMenuAction a s = finishingStrike s \<and>
              finished (game (onMenuAction a s)) \<and> \<not> running (game (onMenuAction a s)) \<and>
              \<not> inMenu (game (onMenuAction a s)) \<and>
              phaseIndex (game (onMenuAction a s)) = phaseIndex (game s) \<and>
              bones (onMenuAction a s) = bones s \<and> player (onMenuAction a s) = player s
         else \<not> inMenu (game (onMenuAction a s)) \<and>
              phaseIndex (game (onMenuAction a s)) = Suc (phaseIndex (game s)) \<and>
              subphaseTime (game (onMenuAction a s)) = 0 \<and>
              bones (onMenuAction a s) = cageBones \<and> blasters (onMenuAction a s) = [] \<and>
              hp (player (onMenuAction a s)) =
                (if a = ''ITEM'' then min (hpMax (player s)) (hp (player s) + 18)
                 else hp (player s)) \<and>
              finished (game (onMenuAction a s)) = finished (game s) \<and>
              running (game (onMenuAction a s)) = running (game s) \<and>
              stallTimer (onMenuAction a s) = stallTimer s \<and>
              napMode (onMenuAction a s) = napMode s \<and>
              dialogue (onMenuAction a s) = ''my special attack.''"
  using assms by (rule onMenuAction_stall)

lemma finisherScene_facts:
  "inMenu (game finisherScene)" "specialStall (game finisherScene)" "napMode finisherScene"
  "stallTimer finisherScene = 8016" "\<not> finished (game finisherScene)"
  "phaseIndex (game finisherScene) = 9" "bones finisherScene = cageBones @ [blueTop]"
  "running (game finisherScene)"
  by (simp_all add: finisherScene_def napScene_def initial_def)

text \<open>FIGHT with the finisher on offer wins.\<close>

theorem stall_menu_actions_witness:
  "inMenu (game finisherScene) \<and> specialStall (game finisherScene) \<and>
   finished (game (onMenuAction ''FIGHT'' finisherScene)) \<and>
   \<not> running (game (onMenuAction ''FIGHT'' finisherScene)) \<and>
   phaseIndex (game (onMenuAction ''FIGHT'' finisherScene)) = 9"
  using stall_menu_actions [of finisherScene "''FIGHT''"]
  by (auto simp add: finisherScene_facts)

text \<open>ACT with the finisher on offer is not ignored: the menu closes, the phase index
  goes from 9 to 10 and the cage is rebuilt, which removes the blue bone.\<close>

theorem stall_act_counterexample:
  "inMenu (game finisherScene) \<and> specialStall (game finisherScene) \<and>
   phaseIndex (game finisherScene) = 9 \<and>
   phaseIndex (game (onMenuAction ''ACT'' finisherScene)) = 10 \<and>
   \<not> inMenu (game (onMenuAction ''ACT'' finisherScene)) \<and>
   bones finisherScene = cageBones @ [blueTop] \<and>
   bones (onMenuAction ''ACT'' finisherScene) = cageBones"
  using onMenuAction_stall [of finisherScene "''ACT''"]
  by (simp add: finisherScene_facts)

lemma napScene_tick:
  "update 16 napScene =
     \<lparr>game = \<lparr>width = 640, height = 480, frame = 1, running = True, phaseIndex = 9,
              subphaseTime = 16, gravity = 7 / 10, soulColor = Blue, inMenu = False,
              specialStall = True, finished = False, introActive = False\<rparr>,
      player = \<lparr>p_x = 320, p_y = 9007 / 25, p_vx = 0, p_vy = 7 / 25, p_width = 12,
                p_height = 12, speed = 3, jump = 9, onGround = False, moveThisFrame = False,
                hp = 92, hpMax = 92, kr = 0\<rparr>,
      keys = {}, bones = cageBones @ [blueTop], blasters = [], stallTimer = 6116,
      napMode = True, introIdx = 0, dialogue = ''you feel the guard drop.'',
      hud = \<lparr>hud_hp = 92, hud_hpMax = 92, hud_kr = 0\<rparr>, timers = [], last = 0\<rparr>"
  apply (simp add: update_def Let_def napScene_def initial_def cageBones_def blueTop_def)
  apply (simp add: eval_move)
  apply (simp add: eval_entities)
  apply (simp add: eval_collide)
  apply (simp add: eval_rest)
  done

lemma napScene_tick2:
  "bones (update 16 (update 16 napScene)) = cageBones @ [blueTop, blueTop] \<and>
   stallTimer (update 16 (update 16 napScene)) = 6132"
  apply (simp add: napScene_tick)
  apply (simp add: update_def Let_def cageBones_def blueTop_def)
  apply (simp add: eval_move)
  apply (simp add: eval_entities)
  apply (simp add: eval_collide)
  apply (simp add: eval_rest)
  done

text \<open>
  C7. The claim holds for the 3000 ms threshold, whose branch is guarded by
  \<open>!napMode\<close>, and fails for the 6000 ms one, whose branch has no such guard: with
  the player idle past 6000 ms every tick spawns one more blue bone over the top wall
  (which stays white). Two ticks of 16 ms from an idle time of 6100 ms leave two blue
  bones.
\<close>

theorem guarded_wall_respawned:
  "bones napScene = cageBones \<and> stallTimer napScene = 6100 \<and>
   bones (update 16 napScene) = cageBones @ [blueTop] \<and>
   stallTimer (update 16 napScene) = 6116 \<and>
   bones (update 16 (update 16 napScene)) = cageBones @ [blueTop, blueTop] \<and>
   stallTimer (update 16 (update 16 napScene)) = 6132"
  using napScene_tick2 by (simp add: napScene_tick) (simp add: napScene_def)

section \<open>Reachable states\<close>

text \<open>Ticks with a negative elapsed time, one white bone over a soul at hp 92 with
  no corruption: after the hit, \<open>applyKR\<close> adds to both meters.\<close>

lemma boneScene_tick_neg:
  "hp (player (update (-16) boneScene)) = 92.08 \<and> kr (player (update (-16) boneScene)) = 5.32 \<and>
   hp (player (update (-3000) boneScene)) = 330.8 \<and> kr (player (update (-3000) boneScene)) = 65 \<and>
   hpMax (player (update (-16) boneScene)) = 92"
  apply (simp add: update_def Let_def boneScene_def initial_def)
  apply (simp add: eval_move)
  apply (simp add: eval_entities)
  apply (simp add: eval_collide)
  apply (simp add: eval_rest)
  done

text \<open>
  C2, as the code has it. A call of \<open>update\<close> with an elapsed time that is not
  negative keeps the meters in range: from a state where corruption is between 0 and
  60 and hp is at most hpMax, and so from every state the engine reaches through
  frames, menu clicks, key events and deferred callbacks, it returns with corruption
  between 0 and 60 and hp at most hpMax, whatever hits and drains the tick brings.
\<close>

theorem meters_invariant:
  assumes "0 \<le> d" and "meterInvariant s \<or> reachable s"
  shows "0 \<le> kr (player (update d s)) \<and> kr (player (update d s)) \<le> 60 \<and>
         hp (player (update d s)) \<le> hpMax (player (update d s))"
proof -
  have "meterInvariant s"
    using assms(2) reachable_meterInvariant by blast
  then have "meterInvariant (update d s)"
    using assms(1) by (rule meterInvariant_update)
  then show ?thesis
    by (simp add: meterInvariant_def)
qed

text \<open>A tick of 16 ms with one white bone over the soul (a hit and a drain), and the
  first tick after the intro.\<close>

theorem meters_invariant_witness:
  "(0::real) \<le> 16 \<and> meterInvariant boneScene \<and>
   hp (player (update 16 boneScene)) = 89.52 \<and> kr (player (update 16 boneScene)) = 4.68 \<and>
   hp (player (update 16 boneScene)) \<le> hpMax (player (update 16 boneScene)) \<and>
   reachable afterIntro \<and>
   0 \<le> kr (player (update 16 afterIntro)) \<and> kr (player (update 16 afterIntro)) \<le> 60 \<and>
   hp (player (update 16 afterIntro)) \<le> hpMax (player (update 16 afterIntro))"
proof -
  have b: "meterInvariant boneScene"
    by (simp add: meterInvariant_def boneScene_def initial_def)
  show ?thesis
    using meters_invariant [of 16 boneScene] meters_invariant [of 16 afterIntro]
      b reachable_afterIntro boneScene_tick
    by simp
qed

text \<open>With a negative elapsed time the bounds break: the same bone and -16 ms leave
  hp at 92.08 above hpMax, and -3000 ms leave corruption at 65.\<close>

theorem negative_delta_counterexample:
  "meterInvariant boneScene \<and>
   hp (player (update (-16) boneScene)) = 92.08 \<and> hpMax (player (update (-16) boneScene)) = 92 \<and>
   kr (player (update (-3000) boneScene)) = 65 \<and>
   \<not> meterInvariant (update (-16) boneScene) \<and> \<not> meterInvariant (update (-3000) boneScene)"
  using boneScene_tick_neg
  by (simp add: meterInvariant_def) (simp add: boneScene_def initial_def)


end
